theory Spec2Isabelle
  imports Main "HOL-Library.AList"
begin

section \<open>Python values, exceptions and the environment of the client\<close>

text \<open>
  The client (\<^verbatim>\<open>webull/webull.py\<close>, \<^verbatim>\<open>webull/paper_webull.py\<close>) moves untyped Python
  values around: arguments, JSON values parsed from the vendor's responses, and the
  dictionaries it sends. They are modelled by one datatype. A dictionary is an association
  list in insertion order (its keys are strings everywhere in the client); the type
  parameter \<open>'f\<close> stands for Python's floats, which the client only creates with
  \<^verbatim>\<open>float(...)\<close> and never computes with.
\<close>

datatype 'f pyval =
    PNone
  | PBool bool
  | PInt int
  | PFloat 'f
  | PStr string
  | PList "'f pyval list"
  | PDict "(string \<times> 'f pyval) list"

text \<open>
  The exceptions that the modelled code can raise. \<open>RequestFailed\<close> is the
  \<^verbatim>\<open>raise Exception('... failed', status_code, reason)\<close> of the option-order methods;
  \<open>JSONDecodeError\<close> is what \<^verbatim>\<open>response.json()\<close> raises on a body that is not JSON;
  \<open>ConnectionError\<close> is any exception of \<^verbatim>\<open>requests.get\<close>/\<^verbatim>\<open>requests.post\<close> itself;
  \<open>EmailNotValidError\<close> stands for the exception of that name of the email validator and
  its subclasses.
\<close>

datatype exn =
    ValueError string
  | KeyError string
  | IndexError
  | TypeError
  | AttributeError
  | UnknownTimeZoneError
  | JSONDecodeError
  | ConnectionError
  | OSError
  | OverflowError
  | RequestFailed string int
  | EmailNotValidError
  | UnboundLocalError
  | EOFError

datatype http_method = GET | POST

record 'f request =
  meth :: http_method
  url :: string
  params :: "(string \<times> 'f pyval) list option"
  json :: "'f pyval option"
  hdrs :: "(string \<times> 'f pyval) list option"
  req_timeout :: int

record 'f response =
  status_code :: int
  body :: "'f pyval option"

text \<open>
  Everything the client takes from outside the repository is a field of the environment:
  the Python builtins \<^verbatim>\<open>str\<close>, \<^verbatim>\<open>float\<close>, \<^verbatim>\<open>int\<close>, the zero test of floats and \<^verbatim>\<open>==\<close>
  between two arbitrary values, the
  vendor (\<open>http env n rq\<close> is the outcome of the request \<open>rq\<close> when \<open>n\<close> requests were
  sent before it), the clock (\<^verbatim>\<open>round(time.time() * 1000)\<close>), the random
  \<^verbatim>\<open>uuid.uuid4()\<close> (\<open>uuid4 env k\<close> is the \<open>k\<close>-th draw of one method call),
  \<^verbatim>\<open>pytz.timezone\<close> (\<open>tz_known\<close> tells whether it accepts a value), the email validator
  (\<open>validate_email\<close> returns or raises), \<^verbatim>\<open>urllib.parse.quote\<close>, the float
  \<^verbatim>\<open>datetime.now().timestamp() * 1000\<close>, the file system (\<open>writable\<close> tells whether
  a path can be opened for writing), \<^verbatim>\<open>datetime.fromtimestamp\<close> (\<open>valid_timestamp\<close> tells
  whether it accepts a number of seconds), the terminal (\<open>prompt env p\<close> is what the user
  types when \<^verbatim>\<open>input\<close> or \<^verbatim>\<open>getpass.getpass\<close> shows the prompt \<open>p\<close>), the hexadecimal MD5
  digest of the UTF-8 encoding of a string, and the calendar (\<open>before_today env t z\<close> tells
  whether the date of the time stamp \<open>t\<close> in the time zone \<open>z\<close> is before the local date of
  today).
\<close>

record 'f env =
  py_str :: "'f pyval \<Rightarrow> string"
  py_float :: "'f pyval \<Rightarrow> exn + 'f"
  py_int :: "'f pyval \<Rightarrow> exn + int"
  float_is_zero :: "'f \<Rightarrow> bool"
  py_eq :: "'f pyval \<Rightarrow> 'f pyval \<Rightarrow> bool"
  http :: "nat \<Rightarrow> 'f request \<Rightarrow> exn + 'f response"
  now_ms :: int
  uuid4 :: "nat \<Rightarrow> string"
  tz_known :: "'f pyval \<Rightarrow> bool"
  validate_email :: "'f pyval \<Rightarrow> exn + unit"
  quote :: "'f pyval \<Rightarrow> exn + string"
  timestamp_ms :: "'f"
  writable :: "string \<Rightarrow> bool"
  valid_timestamp :: "int \<Rightarrow> bool"
  prompt :: "string \<Rightarrow> exn + string"
  md5_hex :: "string \<Rightarrow> string"
  before_today :: "int \<Rightarrow> 'f pyval \<Rightarrow> bool"

text \<open>
  The attributes of a \<^verbatim>\<open>Webull\<close> object set by \<^verbatim>\<open>__init__\<close>, with the leading
  underscore dropped; the two attributes that only some methods create (\<^verbatim>\<open>_credential_data\<close>
  and \<^verbatim>\<open>trade_pin\<close>, \<open>None\<close> while the object has no such attribute); and what belongs to
  the world: the log of the HTTP requests issued so far (\<open>sent\<close>) and the files (\<open>files\<close>),
  each holding a JSON document or something that is not one.
\<close>

datatype 'f content = Json "'f pyval" | NotJson

record 'f webull =
  headers :: "(string \<times> 'f pyval) list"
  account_id :: "'f pyval"
  trade_token :: "'f pyval"
  access_token :: "'f pyval"
  refresh_token :: "'f pyval"
  token_expire :: "'f pyval"
  uuid :: "'f pyval"
  did :: "'f pyval"
  region_code :: "'f pyval"
  zone_var :: "'f pyval"
  timeout :: int
  credential_data :: "'f pyval option"
  trade_pin :: "'f pyval option"
  sent :: "'f request list"
  files :: "(string \<times> 'f content) list"

subsection \<open>Statements that may raise and that change the object\<close>

type_synonym ('f, 'a) action = "'f webull \<Rightarrow> (exn + 'a) \<times> 'f webull"

definition ret :: "'a \<Rightarrow> ('f, 'a) action" where
  "ret x = (\<lambda>s. (Inr x, s))"

definition throw :: "exn \<Rightarrow> ('f, 'a) action" where
  "throw e = (\<lambda>s. (Inl e, s))"

definition lift :: "exn + 'a \<Rightarrow> ('f, 'a) action" where
  "lift r = (\<lambda>s. (r, s))"

definition bindE :: "exn + 'a \<Rightarrow> ('a \<Rightarrow> exn + 'b) \<Rightarrow> exn + 'b" where
  "bindE r f = (case r of Inl e \<Rightarrow> Inl e | Inr x \<Rightarrow> f x)"

definition bnd :: "('f, 'a) action \<Rightarrow> ('a \<Rightarrow> ('f, 'b) action) \<Rightarrow> ('f, 'b) action" where
  "bnd m f = (\<lambda>s. case m s of (Inl e, s') \<Rightarrow> (Inl e, s') | (Inr x, s') \<Rightarrow> f x s')"

subsection \<open>Operators of Python on values\<close>

text \<open>Truth value of an object (\<^verbatim>\<open>if x\<close>, \<^verbatim>\<open>x or y\<close>, \<^verbatim>\<open>not x\<close>).\<close>

fun truthy :: "'f env \<Rightarrow> 'f pyval \<Rightarrow> bool" where
  "truthy env PNone = False"
| "truthy env (PBool b) = b"
| "truthy env (PInt i) = (i \<noteq> 0)"
| "truthy env (PFloat x) = (\<not> float_is_zero env x)"
| "truthy env (PStr s) = (s \<noteq> [])"
| "truthy env (PList xs) = (xs \<noteq> [])"
| "truthy env (PDict d) = (d \<noteq> [])"

text \<open>\<^verbatim>\<open>x == 0\<close>: numbers compare by value and \<^verbatim>\<open>False == 0\<close> holds.\<close>

fun eq_zero :: "'f env \<Rightarrow> 'f pyval \<Rightarrow> bool" where
  "eq_zero env (PInt i) = (i = 0)"
| "eq_zero env (PBool b) = (\<not> b)"
| "eq_zero env (PFloat x) = float_is_zero env x"
| "eq_zero env v = False"

text \<open>\<^verbatim>\<open>x[k]\<close> with a string key \<open>k\<close>: only a dictionary can answer.\<close>

fun getitem :: "'f pyval \<Rightarrow> string \<Rightarrow> exn + 'f pyval" where
  "getitem (PDict d) k = (case map_of d k of None \<Rightarrow> Inl (KeyError k) | Some v \<Rightarrow> Inr v)"
| "getitem v k = Inl TypeError"

text \<open>
  \<^verbatim>\<open>x[i]\<close> with an integer \<open>i\<close>: a negative index counts from the end of a list or
  string; a dictionary with string keys has no integer key.
\<close>

definition list_index :: "'a list \<Rightarrow> int \<Rightarrow> exn + 'a" where
  "list_index xs i =
     (if 0 \<le> i \<and> i < int (length xs) then Inr (xs ! nat i)
      else if i < 0 \<and> - i \<le> int (length xs) then Inr (xs ! nat (int (length xs) + i))
      else Inl IndexError)"

fun getindex :: "'f pyval \<Rightarrow> int \<Rightarrow> exn + 'f pyval" where
  "getindex (PList xs) i = list_index xs i"
| "getindex (PDict d) i = Inl (KeyError [])"
| "getindex (PStr s) i = bindE (list_index s i) (\<lambda>c. Inr (PStr [c]))"
| "getindex v i = Inl TypeError"

text \<open>\<^verbatim>\<open>for item in x\<close>: the elements of a list, the keys of a dictionary, the characters
  of a string.\<close>

fun py_iter :: "'f pyval \<Rightarrow> exn + 'f pyval list" where
  "py_iter (PList xs) = Inr xs"
| "py_iter (PDict d) = Inr (map (\<lambda>kv. PStr (fst kv)) d)"
| "py_iter (PStr s) = Inr (map (\<lambda>c. PStr [c]) s)"
| "py_iter v = Inl TypeError"

text \<open>\<^verbatim>\<open>len(x)\<close>.\<close>

fun py_len :: "'f pyval \<Rightarrow> exn + nat" where
  "py_len (PList xs) = Inr (length xs)"
| "py_len (PDict d) = Inr (length d)"
| "py_len (PStr s) = Inr (length s)"
| "py_len v = Inl TypeError"

text \<open>\<^verbatim>\<open>x or y\<close>: \<open>y\<close> is evaluated only when \<open>x\<close> is false.\<close>

definition or_else :: "'f env \<Rightarrow> 'f pyval \<Rightarrow> exn + 'f pyval \<Rightarrow> exn + 'f pyval" where
  "or_else env x y = (if truthy env x then Inr x else y)"

text \<open>\<^verbatim>\<open>x[k] = v\<close> with a string key.\<close>

fun setitem :: "'f pyval \<Rightarrow> string \<Rightarrow> 'f pyval \<Rightarrow> exn + 'f pyval" where
  "setitem (PDict d) k v = Inr (PDict (AList.update k v d))"
| "setitem x k v = Inl TypeError"

text \<open>\<^verbatim>\<open>s + x\<close> for a string \<open>s\<close>: \<open>x\<close> must be a string.\<close>

fun str_add :: "string \<Rightarrow> 'f pyval \<Rightarrow> exn + string" where
  "str_add s (PStr t) = Inr (s @ t)"
| "str_add s v = Inl TypeError"

fun is_substring :: "string \<Rightarrow> string \<Rightarrow> bool" where
  "is_substring k [] = (k = [])"
| "is_substring k (c # cs) = (take (length k) (c # cs) = k \<or> is_substring k cs)"

text \<open>\<^verbatim>\<open>k in x\<close> with a string \<open>k\<close>.\<close>

fun contains :: "'f pyval \<Rightarrow> string \<Rightarrow> exn + bool" where
  "contains (PDict d) k = Inr (k \<in> fst ` set d)"
| "contains (PList xs) k = Inr (PStr k \<in> set xs)"
| "contains (PStr s) k = Inr (is_substring k s)"
| "contains v k = Inl TypeError"

text \<open>\<^verbatim>\<open>x.get(k)\<close>: a method of dictionaries only.\<close>

fun dict_get :: "'f pyval \<Rightarrow> string \<Rightarrow> exn + 'f pyval" where
  "dict_get (PDict d) k = (case map_of d k of None \<Rightarrow> Inr PNone | Some v \<Rightarrow> Inr v)"
| "dict_get v k = Inl AttributeError"

text \<open>\<^verbatim>\<open>d[k] = v\<close> on a dictionary: an existing key keeps its place, a new one is appended.\<close>

abbreviation dict_set :: "string \<Rightarrow> 'f pyval \<Rightarrow> (string \<times> 'f pyval) list \<Rightarrow> (string \<times> 'f pyval) list" where
  "dict_set k v d \<equiv> AList.update k v d"

subsection \<open>The requests library\<close>

text \<open>
  A request is logged, and answered by the vendor or by an exception of the library.
  \<^verbatim>\<open>bool(response)\<close> is \<^verbatim>\<open>response.ok\<close>: no client or server error status.
\<close>

definition send :: "'f env \<Rightarrow> 'f request \<Rightarrow> ('f, 'f response) action" where
  "send env rq = (\<lambda>s. (http env (length (sent s)) rq, s\<lparr>sent := sent s @ [rq]\<rparr>))"

definition response_json :: "'f response \<Rightarrow> exn + 'f pyval" where
  "response_json r = (case body r of None \<Rightarrow> Inl JSONDecodeError | Some v \<Rightarrow> Inr v)"

definition response_ok :: "'f response \<Rightarrow> bool" where
  "response_ok r = (\<not> (400 \<le> status_code r \<and> status_code r < 600))"

section \<open>Endpoints\<close>

text \<open>
  The URL builders of \<^verbatim>\<open>webull/endpoints.py\<close> that the modelled methods use. Each is an
  f-string: a value put into it is formatted with \<^verbatim>\<open>str\<close>.
\<close>

definition base_options_gw_url :: string where
  "base_options_gw_url = ''https://quotes-gw.webullbroker.com/api''"

definition base_paper_url :: string where
  "base_paper_url = ''https://act.webullbroker.com/webull-paper-center/api''"

definition base_quote_url :: string where
  "base_quote_url = ''https://quoteapi.webullbroker.com/api''"

definition base_trade_url :: string where
  "base_trade_url = ''https://tradeapi.webullbroker.com/api/trade''"

definition base_user_url :: string where
  "base_user_url = ''https://userapi.webull.com/api''"

definition base_userbroker_url :: string where
  "base_userbroker_url = ''https://userapi.webullbroker.com/api''"

definition base_ustrade_url :: string where
  "base_ustrade_url = ''https://ustrade.webullfinance.com/api''"

definition base_paperfintech_url :: string where
  "base_paperfintech_url = ''https://act.webullfintech.com/webull-paper-center/api''"

definition base_userfintech_url :: string where
  "base_userfintech_url = ''https://userapi.webullfintech.com/api''"

definition base_ustradebroker_url :: string where
  "base_ustradebroker_url = ''https://ustrade.webullbroker.com/api''"

definition endpoints_account :: "'f env \<Rightarrow> 'f pyval \<Rightarrow> string" where
  "endpoints_account env aid = base_trade_url @ ''/v3/home/'' @ py_str env aid"

definition endpoints_account_id :: string where
  "endpoints_account_id = base_trade_url @ ''/account/getSecAccountList/v5''"

definition endpoints_bars :: "'f env \<Rightarrow> 'f pyval \<Rightarrow> string" where
  "endpoints_bars env stock = base_quote_url @ ''/quote/tickerChartDatas/v5/'' @ py_str env stock"

definition endpoints_cancel_order :: "'f env \<Rightarrow> 'f pyval \<Rightarrow> string" where
  "endpoints_cancel_order env aid =
     base_ustrade_url @ ''/trade/order/'' @ py_str env aid @ ''/cancelStockOrder/''"

definition endpoints_modify_otoco_orders :: "'f env \<Rightarrow> 'f pyval \<Rightarrow> string" where
  "endpoints_modify_otoco_orders env aid =
     base_ustrade_url @ ''/trade/v2/corder/stock/modify/'' @ py_str env aid"

definition endpoints_cancel_otoco_orders :: "'f env \<Rightarrow> 'f pyval \<Rightarrow> 'f pyval \<Rightarrow> string" where
  "endpoints_cancel_otoco_orders env aid combo_id =
     base_ustrade_url @ ''/trade/v2/corder/stock/cancel/'' @ py_str env aid @ ''/''
       @ py_str env combo_id"

definition endpoints_check_otoco_orders :: "'f env \<Rightarrow> 'f pyval \<Rightarrow> string" where
  "endpoints_check_otoco_orders env aid =
     base_ustrade_url @ ''/trade/v2/corder/stock/check/'' @ py_str env aid"

definition endpoints_place_otoco_orders :: "'f env \<Rightarrow> 'f pyval \<Rightarrow> string" where
  "endpoints_place_otoco_orders env aid =
     base_ustrade_url @ ''/trade/v2/corder/stock/place/'' @ py_str env aid"

definition endpoints_get_security ::
  "'f env \<Rightarrow> string \<Rightarrow> 'f pyval \<Rightarrow> 'f pyval \<Rightarrow> string \<Rightarrow> string \<Rightarrow> int \<Rightarrow> string" where
  "endpoints_get_security env username account_type region event tm u =
     base_userfintech_url @ ''/user/risk/''
       @ (if u = 1 then ''getPrivacyQuestion'' else ''getSecurityQuestion'')
       @ ''?account='' @ username @ ''&accountType='' @ py_str env account_type
       @ ''&regionId='' @ py_str env region @ ''&event='' @ event @ ''&v='' @ tm"

definition endpoints_orders :: "'f env \<Rightarrow> 'f pyval \<Rightarrow> 'f pyval \<Rightarrow> string" where
  "endpoints_orders env aid page_size =
     base_ustradebroker_url @ ''/trade/v2/option/list?secAccountId='' @ py_str env aid
       @ ''&startTime=1970-0-1&dateType=ORDER&pageSize='' @ py_str env page_size @ ''&status=''"

definition endpoints_paper_orders :: "'f env \<Rightarrow> 'f pyval \<Rightarrow> 'f pyval \<Rightarrow> string" where
  "endpoints_paper_orders env paper_account_id page_size =
     base_paper_url @ ''/paper/1/acc/'' @ py_str env paper_account_id
       @ ''/order?&startTime=1970-0-1&dateType=ORDER&pageSize='' @ py_str env page_size
       @ ''&status=''"

definition endpoints_paper_account :: "'f env \<Rightarrow> 'f pyval \<Rightarrow> string" where
  "endpoints_paper_account env paper_account_id =
     base_paperfintech_url @ ''/paper/1/acc/'' @ py_str env paper_account_id"

definition endpoints_paper_account_id :: string where
  "endpoints_paper_account_id = base_paperfintech_url @ ''/myaccounts/true''"

definition endpoints_paper_cancel_order :: "'f env \<Rightarrow> 'f pyval \<Rightarrow> 'f pyval \<Rightarrow> string" where
  "endpoints_paper_cancel_order env paper_account_id order_id =
     base_paper_url @ ''/paper/1/acc/'' @ py_str env paper_account_id @ ''/orderop/cancel/''
       @ py_str env order_id"

definition endpoints_paper_modify_order :: "'f env \<Rightarrow> 'f pyval \<Rightarrow> 'f pyval \<Rightarrow> string" where
  "endpoints_paper_modify_order env paper_account_id order_id =
     base_paper_url @ ''/paper/1/acc/'' @ py_str env paper_account_id @ ''/orderop/modify/''
       @ py_str env order_id"

definition endpoints_paper_place_order :: "'f env \<Rightarrow> 'f pyval \<Rightarrow> 'f pyval \<Rightarrow> string" where
  "endpoints_paper_place_order env paper_account_id stock =
     base_paper_url @ ''/paper/1/acc/'' @ py_str env paper_account_id @ ''/orderop/place/''
       @ py_str env stock"

definition endpoints_place_option_orders :: "'f env \<Rightarrow> 'f pyval \<Rightarrow> string" where
  "endpoints_place_option_orders env aid =
     base_ustrade_url @ ''/trade/v2/option/placeOrder/'' @ py_str env aid"

definition endpoints_place_orders :: "'f env \<Rightarrow> 'f pyval \<Rightarrow> string" where
  "endpoints_place_orders env aid =
     base_ustrade_url @ ''/trade/order/'' @ py_str env aid @ ''/placeStockOrder''"

text \<open>The order id is a parameter of \<^verbatim>\<open>endpoints.modify_order\<close> that its URL does not use.\<close>

definition endpoints_modify_order :: "'f env \<Rightarrow> 'f pyval \<Rightarrow> 'f pyval \<Rightarrow> string" where
  "endpoints_modify_order env aid order_id =
     base_ustrade_url @ ''/trading/v1/webull/order/stockOrderModify?secAccountId=''
       @ py_str env aid"

definition endpoints_refresh_login :: string where
  "endpoints_refresh_login = base_user_url @ ''/passport/refreshToken?refreshToken=''"

definition endpoints_replace_option_orders :: "'f env \<Rightarrow> 'f pyval \<Rightarrow> string" where
  "endpoints_replace_option_orders env aid =
     base_trade_url @ ''/v2/option/replaceOrder/'' @ py_str env aid"

definition endpoints_stock_id :: "'f env \<Rightarrow> 'f pyval \<Rightarrow> 'f pyval \<Rightarrow> string" where
  "endpoints_stock_id env stock region =
     base_options_gw_url @ ''/search/pc/tickers?keyword='' @ py_str env stock
       @ ''&pageIndex=1&pageSize=20&regionId='' @ py_str env region"

definition endpoints_screener :: string where
  "endpoints_screener = base_userbroker_url @ ''/wlas/screener/ng/query''"

section \<open>The session client\<close>

subsection \<open>Request headers\<close>

text \<open>
  \<^verbatim>\<open>build_req_headers\<close> binds \<^verbatim>\<open>headers = self._headers\<close>, stores into that dictionary
  and returns it: the result is the object's own dictionary, not a copy. A caller's local
  \<^verbatim>\<open>headers\<close> therefore always denotes the current contents of \<^verbatim>\<open>self._headers\<close>; the
  model returns nothing and \<open>get_with_headers\<close>/\<open>post_with_headers\<close> read the field when
  the request is sent.
\<close>

definition build_req_headers :: "'f env \<Rightarrow> bool \<Rightarrow> bool \<Rightarrow> bool \<Rightarrow> ('f, unit) action" where
  "build_req_headers env include_trade_token include_time include_zone_var = (\<lambda>s.
     let h1 = dict_set ''did'' (did s) (headers s);
         h2 = dict_set ''access_token'' (access_token s) h1;
         h3 = (if include_trade_token then dict_set ''t_token'' (trade_token s) h2 else h2);
         h4 = (if include_time
               then dict_set ''t_time'' (PStr (py_str env (PInt (now_ms env)))) h3 else h3);
         h5 = (if include_zone_var then dict_set ''lzone'' (zone_var s) h4 else h4)
     in (Inr (), s\<lparr>headers := h5\<rparr>))"

definition get_with_headers ::
  "'f env \<Rightarrow> string \<Rightarrow> (string \<times> 'f pyval) list option \<Rightarrow> ('f, 'f response) action" where
  "get_with_headers env u ps = (\<lambda>s.
     send env \<lparr>meth = GET, url = u, params = ps, json = None,
               hdrs = Some (headers s), req_timeout = timeout s\<rparr> s)"

definition post_with_headers :: "'f env \<Rightarrow> string \<Rightarrow> 'f pyval option \<Rightarrow> ('f, 'f response) action" where
  "post_with_headers env u j = (\<lambda>s.
     send env \<lparr>meth = POST, url = u, params = None, json = j,
               hdrs = Some (headers s), req_timeout = timeout s\<rparr> s)"

text \<open>A sequence of calls of \<^verbatim>\<open>build_req_headers\<close>, each with its three options.\<close>

fun build_many :: "'f env \<Rightarrow> (bool \<times> bool \<times> bool) list \<Rightarrow> 'f webull \<Rightarrow> 'f webull" where
  "build_many env [] s = s"
| "build_many env ((tt, tm, zv) # cs) s = build_many env cs (snd (build_req_headers env tt tm zv s))"

subsection \<open>Ticker lookup\<close>

text \<open>\<^verbatim>\<open>k in item and item[k] == stock\<close>, for the string \<open>stock\<close>.\<close>

definition key_equals :: "'f pyval \<Rightarrow> string \<Rightarrow> 'f pyval \<Rightarrow> exn + bool" where
  "key_equals item k stock =
     bindE (contains item k) (\<lambda>c.
       if c then bindE (getitem item k) (\<lambda>v. Inr (v = stock)) else Inr False)"

text \<open>
  The \<^verbatim>\<open>for\<close> loop of \<^verbatim>\<open>get_ticker\<close>: the value of \<^verbatim>\<open>ticker_id\<close> when the loop is
  left, by \<^verbatim>\<open>break\<close> or at the end of the items; it starts as \<open>0\<close>.
\<close>

fun ticker_loop :: "'f pyval \<Rightarrow> 'f pyval list \<Rightarrow> exn + 'f pyval" where
  "ticker_loop stock [] = Inr (PInt 0)"
| "ticker_loop stock (item # items) =
     bindE (key_equals item ''symbol'' stock) (\<lambda>m.
       if m then getitem item ''tickerId''
       else bindE (key_equals item ''disSymbol'' stock) (\<lambda>m'.
         if m' then getitem item ''tickerId'' else ticker_loop stock items))"

definition get_ticker :: "'f env \<Rightarrow> 'f pyval \<Rightarrow> ('f, 'f pyval) action" where
  "get_ticker env stock =
     bnd (build_req_headers env False False True) (\<lambda>_.
     case stock of
       PStr st \<Rightarrow>
         if truthy env stock then
           bnd (\<lambda>s. get_with_headers env (endpoints_stock_id env stock (region_code s)) None s)
             (\<lambda>response.
           bnd (lift (response_json response)) (\<lambda>result.
           bnd (lift (dict_get result ''data'')) (\<lambda>d.
           if truthy env d then
             bnd (lift (bindE (getitem result ''data'') py_iter)) (\<lambda>items.
             bnd (lift (ticker_loop stock items)) (\<lambda>ticker_id.
             if eq_zero env ticker_id then
               lift (bindE (bindE (getitem result ''data'') (\<lambda>dt. getindex dt 0))
                       (\<lambda>item0. getitem item0 ''tickerId''))
             else ret ticker_id))
           else throw (ValueError (''TickerId could not be found for stock '' @ st)))))
         else throw (ValueError ''Stock symbol is required'')
     | _ \<Rightarrow> throw (ValueError ''Stock symbol is required''))"

text \<open>
  The prologue that \<^verbatim>\<open>place_order\<close>, \<^verbatim>\<open>place_order_crypto\<close> and \<^verbatim>\<open>get_bars\<close> each
  write out: a ticker id that is given is used; otherwise the symbol is looked up; with
  neither, \<^verbatim>\<open>ValueError\<close>.
\<close>

definition resolve_tId :: "'f env \<Rightarrow> 'f pyval \<Rightarrow> 'f pyval \<Rightarrow> ('f, 'f pyval) action" where
  "resolve_tId env stock tId =
     (if tId \<noteq> PNone then ret tId
      else if stock \<noteq> PNone then get_ticker env stock
      else throw (ValueError ''Must provide a stock symbol or a stock id''))"

subsection \<open>Login questions, token refresh, account\<close>

text \<open>
  \<^verbatim>\<open>get_account_type\<close>: only \<^verbatim>\<open>EmailNotValidError\<close> is caught; any other exception of the
  validator (a \<^verbatim>\<open>TypeError\<close> for a user name that is not a string) propagates.
\<close>

definition get_account_type :: "'f env \<Rightarrow> 'f pyval \<Rightarrow> exn + 'f pyval" where
  "get_account_type env username =
     (case validate_email env username of
        Inr _ \<Rightarrow> Inr (PInt 2)
      | Inl e \<Rightarrow> if e = EmailNotValidError then Inr (PInt 1) else Inl e)"

definition get_security :: "'f env \<Rightarrow> 'f pyval \<Rightarrow> ('f, 'f pyval) action" where
  "get_security env username =
     bnd (lift (get_account_type env username)) (\<lambda>account_type.
      bnd (lift (quote env username)) (\<lambda>uname.
      let tm = py_str env (PFloat (timestamp_ms env)) in
      bnd (\<lambda>s. get_with_headers env
                 (endpoints_get_security env uname account_type (region_code s)
                    ''PRODUCT_LOGIN'' tm 0) None s) (\<lambda>response.
      bnd (lift (response_json response)) (\<lambda>data.
      bnd (lift (py_len data)) (\<lambda>n.
      if n = 0 then
        bnd (\<lambda>s. get_with_headers env
                   (endpoints_get_security env uname account_type (region_code s)
                      ''PRODUCT_LOGIN'' tm 1) None s) (\<lambda>response2.
        lift (response_json response2))
      else ret data)))))"

definition DEFAULT_CREDENTIAL_PATH :: string where
  "DEFAULT_CREDENTIAL_PATH = ''webull_credentials.json''"

text \<open>
  \<^verbatim>\<open>open(path, 'w')\<close> followed by \<^verbatim>\<open>json.dump(data, f)\<close>: the path is a string (or an
  integer, a file descriptor, which is identified here with the file named by its numeral);
  any other value is a \<^verbatim>\<open>TypeError\<close>, and a file that cannot be opened an \<^verbatim>\<open>OSError\<close>.
\<close>

definition open_name :: "'f env \<Rightarrow> 'f pyval \<Rightarrow> exn + string" where
  "open_name env path =
     (case path of
        PStr p \<Rightarrow> Inr p
      | PInt i \<Rightarrow> Inr (py_str env (PInt i))
      | PBool b \<Rightarrow> Inr (py_str env (PInt (if b then 1 else 0)))
      | _ \<Rightarrow> Inl TypeError)"

definition write_json :: "'f env \<Rightarrow> 'f pyval \<Rightarrow> 'f pyval \<Rightarrow> ('f, unit) action" where
  "write_json env path data = (\<lambda>s.
     case open_name env path of
       Inl e \<Rightarrow> (Inl e, s)
     | Inr p \<Rightarrow>
         if writable env p then (Inr (), s\<lparr>files := AList.update p (Json data) (files s)\<rparr>)
         else (Inl OSError, s))"

text \<open>
  \<^verbatim>\<open>_save_token\<close>: the token is written to \<^verbatim>\<open>path or DEFAULT_CREDENTIAL_PATH\<close>.
\<close>

definition save_token_file :: "'f env \<Rightarrow> 'f pyval \<Rightarrow> 'f pyval \<Rightarrow> ('f, unit) action" where
  "save_token_file env token path =
     write_json env (if truthy env path then path else PStr DEFAULT_CREDENTIAL_PATH) token"

text \<open>The condition of \<^verbatim>\<open>refresh_login\<close>, with the short-circuit evaluation of \<^verbatim>\<open>and\<close>.\<close>

definition refresh_ok :: "'f pyval \<Rightarrow> exn + bool" where
  "refresh_ok result =
     bindE (contains result ''accessToken'') (\<lambda>c.
     if \<not> c then Inr False else
     bindE (getitem result ''accessToken'') (\<lambda>a.
     if a = PStr [] then Inr False else
     bindE (getitem result ''refreshToken'') (\<lambda>r.
     if r = PStr [] then Inr False else
     bindE (getitem result ''tokenExpireTime'') (\<lambda>t.
     Inr (t \<noteq> PStr [])))))"

definition refresh_login :: "'f env \<Rightarrow> bool \<Rightarrow> 'f pyval \<Rightarrow> ('f, 'f pyval) action" where
  "refresh_login env save_token token_path =
     bnd (build_req_headers env False False True) (\<lambda>_.
     bnd (\<lambda>s. lift (str_add endpoints_refresh_login (refresh_token s)) s) (\<lambda>u.
     bnd (\<lambda>s. post_with_headers env u (Some (PDict [(''refreshToken'', refresh_token s)])) s)
       (\<lambda>response.
     bnd (lift (response_json response)) (\<lambda>result.
     bnd (lift (refresh_ok result)) (\<lambda>ok.
     if ok then
       bnd (lift (getitem result ''accessToken'')) (\<lambda>a.
       bnd (\<lambda>s. (Inr (), s\<lparr>access_token := a\<rparr>)) (\<lambda>_.
       bnd (lift (getitem result ''refreshToken'')) (\<lambda>r.
       bnd (\<lambda>s. (Inr (), s\<lparr>refresh_token := r\<rparr>)) (\<lambda>_.
       bnd (lift (getitem result ''tokenExpireTime'')) (\<lambda>t.
       bnd (\<lambda>s. (Inr (), s\<lparr>token_expire := t\<rparr>)) (\<lambda>_.
       bnd (\<lambda>s. lift (setitem result ''uuid'' (uuid s)) s) (\<lambda>result'.
       if save_token then bnd (save_token_file env result' token_path) (\<lambda>_. ret result')
       else ret result')))))))
     else ret result)))))"

definition get_account_id :: "'f env \<Rightarrow> 'f pyval \<Rightarrow> ('f, 'f pyval) action" where
  "get_account_id env ident =
     bnd (build_req_headers env False False True) (\<lambda>_.
     bnd (get_with_headers env endpoints_account_id None) (\<lambda>response.
     bnd (lift (response_json response)) (\<lambda>result.
     bnd (lift (getitem result ''success'')) (\<lambda>success.
     bnd (lift (if truthy env success
                then bindE (getitem result ''data'') (\<lambda>d. bindE (py_len d) (\<lambda>n. Inr (0 < n)))
                else Inr False)) (\<lambda>found.
     if found then
       bnd (lift (bindE (getitem result ''data'') (\<lambda>d. bindE (py_int env ident) (\<lambda>i.
                    bindE (getindex d i) (\<lambda>acc. getitem acc ''rzone''))))) (\<lambda>rzone.
       bnd (\<lambda>s. (Inr (), s\<lparr>zone_var := PStr (py_str env rzone)\<rparr>)) (\<lambda>_.
       bnd (lift (bindE (getitem result ''data'') (\<lambda>d. bindE (py_int env ident) (\<lambda>i.
                    bindE (getindex d i) (\<lambda>acc. getitem acc ''secAccountId''))))) (\<lambda>sec.
       bnd (\<lambda>s. (Inr (), s\<lparr>account_id := PStr (py_str env sec)\<rparr>)) (\<lambda>_.
       (\<lambda>s. (Inr (account_id s), s))))))
     else ret PNone)))))"

definition get_account :: "'f env \<Rightarrow> ('f, 'f pyval) action" where
  "get_account env =
     bnd (build_req_headers env False False True) (\<lambda>_.
     bnd (\<lambda>s. get_with_headers env (endpoints_account env (account_id s)) None s) (\<lambda>response.
     lift (response_json response)))"

definition get_positions :: "'f env \<Rightarrow> ('f, 'f pyval) action" where
  "get_positions env = bnd (get_account env) (\<lambda>data. lift (getitem data ''positions''))"

definition get_current_orders :: "'f env \<Rightarrow> ('f, 'f pyval) action" where
  "get_current_orders env = bnd (get_account env) (\<lambda>data. lift (getitem data ''openOrders''))"

definition get_history_orders :: "'f env \<Rightarrow> 'f pyval \<Rightarrow> 'f pyval \<Rightarrow> ('f, 'f pyval) action" where
  "get_history_orders env status count =
     bnd (build_req_headers env True True True) (\<lambda>_.
     bnd (\<lambda>s. get_with_headers env
                (endpoints_orders env (account_id s) count @ py_str env status) None s)
       (\<lambda>response.
     lift (response_json response)))"

subsection \<open>Stock orders\<close>

text \<open>
  The payload that \<^verbatim>\<open>place_order\<close> builds between \<^verbatim>\<open>build_req_headers\<close> and the POST:
  the dictionary literal, then the branch on the order type.
\<close>

definition place_order_data ::
  "'f env \<Rightarrow> 'f pyval \<Rightarrow> 'f pyval \<Rightarrow> 'f pyval \<Rightarrow> 'f pyval \<Rightarrow> 'f pyval \<Rightarrow> 'f pyval \<Rightarrow> 'f pyval
     \<Rightarrow> 'f pyval \<Rightarrow> 'f pyval \<Rightarrow> 'f pyval \<Rightarrow> exn + (string \<times> 'f pyval) list" where
  "place_order_data env tId price action orderType enforce quant outsideRegularTradingHour
       stpPrice trial_value trial_type =
     bindE (py_int env quant) (\<lambda>q.
     let data = [(''action'', action),
                 (''comboType'', PStr ''NORMAL''),
                 (''orderType'', orderType),
                 (''outsideRegularTradingHour'', outsideRegularTradingHour),
                 (''quantity'', PInt q),
                 (''serialId'', PStr (uuid4 env 0)),
                 (''tickerId'', tId),
                 (''timeInForce'', enforce)]
     in if orderType = PStr ''MKT'' then
          Inr (dict_set ''outsideRegularTradingHour'' (PBool False) data)
        else if orderType = PStr ''LMT'' then
          bindE (py_float env price) (\<lambda>p. Inr (dict_set ''lmtPrice'' (PFloat p) data))
        else if orderType = PStr ''STP'' then
          bindE (py_float env stpPrice) (\<lambda>a. Inr (dict_set ''auxPrice'' (PFloat a) data))
        else if orderType = PStr ''STP LMT'' then
          bindE (py_float env price) (\<lambda>p.
          bindE (py_float env stpPrice) (\<lambda>a.
            Inr (dict_set ''auxPrice'' (PFloat a) (dict_set ''lmtPrice'' (PFloat p) data))))
        else if orderType = PStr ''STP TRAIL'' then
          bindE (py_float env trial_value) (\<lambda>t.
            Inr (dict_set ''trailingType'' (PStr (py_str env trial_type))
                   (dict_set ''trailingStopStep'' (PFloat t) data)))
        else Inr data)"

definition place_order ::
  "'f env \<Rightarrow> 'f pyval \<Rightarrow> 'f pyval \<Rightarrow> 'f pyval \<Rightarrow> 'f pyval \<Rightarrow> 'f pyval \<Rightarrow> 'f pyval \<Rightarrow> 'f pyval
     \<Rightarrow> 'f pyval \<Rightarrow> 'f pyval \<Rightarrow> 'f pyval \<Rightarrow> 'f pyval \<Rightarrow> ('f, 'f pyval) action" where
  "place_order env stock tId price action orderType enforce quant outsideRegularTradingHour
       stpPrice trial_value trial_type =
     bnd (resolve_tId env stock tId) (\<lambda>tId'.
     bnd (build_req_headers env True True True) (\<lambda>_.
     bnd (lift (place_order_data env tId' price action orderType enforce quant
                  outsideRegularTradingHour stpPrice trial_value trial_type)) (\<lambda>data.
     bnd (\<lambda>s. post_with_headers env (endpoints_place_orders env (account_id s))
                 (Some (PDict data)) s) (\<lambda>response.
     lift (response_json response)))))"

definition modify_order ::
  "'f env \<Rightarrow> 'f pyval \<Rightarrow> 'f pyval \<Rightarrow> 'f pyval \<Rightarrow> 'f pyval \<Rightarrow> 'f pyval \<Rightarrow> 'f pyval \<Rightarrow> 'f pyval
     \<Rightarrow> 'f pyval \<Rightarrow> 'f pyval \<Rightarrow> 'f pyval \<Rightarrow> ('f, 'f pyval) action" where
  "modify_order env order order_id stock tId price action orderType enforce quant
       outsideRegularTradingHour =
     (if \<not> truthy env order \<and> \<not> truthy env order_id then
        throw (ValueError ''Must provide an order or order_id'')
      else
     bnd (build_req_headers env True True True) (\<lambda>_.
     bnd (lift (or_else env action (getitem order ''action''))) (\<lambda>modifiedAction.
     bnd (lift (bindE (or_else env price (getitem order ''lmtPrice''))
                  (\<lambda>v. bindE (py_float env v) (\<lambda>x. Inr (PFloat x))))) (\<lambda>modifiedLmtPrice.
     bnd (lift (or_else env orderType (getitem order ''orderType''))) (\<lambda>modifiedOrderType.
     bnd (lift (case outsideRegularTradingHour of
                  PBool b \<Rightarrow> Inr (PBool b)
                | _ \<Rightarrow> getitem order ''outsideRegularTradingHour''))
       (\<lambda>modifiedOutsideRegularTradingHour.
     bnd (lift (or_else env enforce (getitem order ''timeInForce''))) (\<lambda>modifiedEnforce.
     bnd (lift (bindE (or_else env quant (getitem order ''quantity''))
                  (\<lambda>v. bindE (py_int env v) (\<lambda>i. Inr (PInt i))))) (\<lambda>modifiedQuant.
     bnd (if tId \<noteq> PNone then ret tId
          else if stock \<noteq> PNone then get_ticker env stock
          else lift (bindE (getitem order ''ticker'') (\<lambda>t. getitem t ''tickerId''))) (\<lambda>tId'.
     bnd (lift (or_else env order_id (getitem order ''orderId''))) (\<lambda>order_id'.
     let data = [(''action'', modifiedAction),
                 (''lmtPrice'', modifiedLmtPrice),
                 (''orderType'', modifiedOrderType),
                 (''quantity'', modifiedQuant),
                 (''comboType'', PStr ''NORMAL''),
                 (''outsideRegularTradingHour'', modifiedOutsideRegularTradingHour),
                 (''serialId'', PStr (uuid4 env 0)),
                 (''orderId'', order_id'),
                 (''tickerId'', tId'),
                 (''timeInForce'', modifiedEnforce)];
         data' = (if modifiedOrderType = PStr ''MKT''
                  then dict_set ''outsideRegularTradingHour'' (PBool False) data else data)
     in
     bnd (\<lambda>s. post_with_headers env (endpoints_modify_order env (account_id s) order_id')
                 (Some (PDict data')) s) (\<lambda>response.
     lift (response_json response))))))))))))"

definition cancel_order :: "'f env \<Rightarrow> 'f pyval \<Rightarrow> ('f, 'f pyval) action" where
  "cancel_order env order_id =
     bnd (build_req_headers env True True True) (\<lambda>_.
     bnd (\<lambda>s. post_with_headers env
                 (endpoints_cancel_order env (account_id s) @ py_str env order_id @ ''/''
                    @ uuid4 env 0)
                 (Some (PDict [])) s) (\<lambda>response.
     bnd (lift (response_json response)) (\<lambda>result.
     lift (getitem result ''success''))))"

subsection \<open>Bracket (OTOCO) orders\<close>

text \<open>
  One of the order dictionaries of the OTOCO methods. Each literal has the same keys in the
  same order, so its values are evaluated in this order: \<^verbatim>\<open>int(quant)\<close>, the order id
  when there is one, \<^verbatim>\<open>self.get_ticker(stock)\<close>, \<^verbatim>\<open>float\<close> of the price, the serial id when
  there is one.
\<close>

definition otoco_leg ::
  "'f env \<Rightarrow> string \<Rightarrow> 'f pyval \<Rightarrow> 'f pyval \<Rightarrow> 'f pyval option \<Rightarrow> string \<Rightarrow> 'f pyval \<Rightarrow> string
     \<Rightarrow> 'f pyval \<Rightarrow> string \<Rightarrow> string option \<Rightarrow> ('f, 'f pyval) action" where
  "otoco_leg env order_type time_in_force quant order_id act stock price_key price combo serial =
     bnd (lift (py_int env quant)) (\<lambda>q.
     bnd (get_ticker env stock) (\<lambda>tid.
     bnd (lift (py_float env price)) (\<lambda>p.
     ret (PDict ([(''orderType'', PStr order_type),
                  (''timeInForce'', time_in_force),
                  (''quantity'', PInt q)]
                 @ (case order_id of None \<Rightarrow> []
                    | Some i \<Rightarrow> [(''orderId'', PStr (py_str env i))])
                 @ [(''outsideRegularTradingHour'', PBool False),
                    (''action'', PStr act),
                    (''tickerId'', tid),
                    (price_key, PFloat p),
                    (''comboType'', PStr combo)]
                 @ (case serial of None \<Rightarrow> [] | Some u \<Rightarrow> [(''serialId'', PStr u)]))))))"

definition place_order_otoco ::
  "'f env \<Rightarrow> 'f pyval \<Rightarrow> 'f pyval \<Rightarrow> 'f pyval \<Rightarrow> 'f pyval \<Rightarrow> 'f pyval \<Rightarrow> 'f pyval
     \<Rightarrow> ('f, 'f pyval) action" where
  "place_order_otoco env stock price stop_loss_price limit_profit_price time_in_force quant =
     bnd (build_req_headers env False True True) (\<lambda>_.
     bnd (otoco_leg env ''LMT'' time_in_force quant None ''BUY'' stock ''lmtPrice'' price
            ''MASTER'' None) (\<lambda>o1.
     bnd (otoco_leg env ''STP'' time_in_force quant None ''SELL'' stock ''auxPrice''
            stop_loss_price ''STOP_LOSS'' None) (\<lambda>o2.
     bnd (otoco_leg env ''LMT'' time_in_force quant None ''SELL'' stock ''lmtPrice''
            limit_profit_price ''STOP_PROFIT'' None) (\<lambda>o3.
     bnd (\<lambda>s. post_with_headers env (endpoints_check_otoco_orders env (account_id s))
                 (Some (PDict [(''newOrders'', PList [o1, o2, o3])])) s) (\<lambda>response1.
     bnd (lift (response_json response1)) (\<lambda>result1.
     bnd (lift (getitem result1 ''forward'')) (\<lambda>forward.
     if truthy env forward then
       bnd (otoco_leg env ''LMT'' time_in_force quant None ''BUY'' stock ''lmtPrice'' price
              ''MASTER'' (Some (uuid4 env 0))) (\<lambda>p1.
       bnd (otoco_leg env ''STP'' time_in_force quant None ''SELL'' stock ''auxPrice''
              stop_loss_price ''STOP_LOSS'' (Some (uuid4 env 1))) (\<lambda>p2.
       bnd (otoco_leg env ''LMT'' time_in_force quant None ''SELL'' stock ''lmtPrice''
              limit_profit_price ''STOP_PROFIT'' (Some (uuid4 env 2))) (\<lambda>p3.
       bnd (\<lambda>s. post_with_headers env (endpoints_place_otoco_orders env (account_id s))
                   (Some (PDict [(''newOrders'', PList [p1, p2, p3]),
                                 (''serialId'', PStr (uuid4 env 3))])) s) (\<lambda>response2.
       lift (response_json response2)))))
     else
       bnd (lift (bindE (getitem result1 ''checkResultList'') (\<lambda>l.
                  bindE (getindex l 0) (\<lambda>c. getitem c ''code'')))) (\<lambda>_.
       bnd (lift (bindE (getitem result1 ''checkResultList'') (\<lambda>l.
                  bindE (getindex l 0) (\<lambda>c. getitem c ''msg'')))) (\<lambda>_.
       ret (PBool False))))))))))"

definition modify_order_otoco ::
  "'f env \<Rightarrow> 'f pyval \<Rightarrow> 'f pyval \<Rightarrow> 'f pyval \<Rightarrow> 'f pyval \<Rightarrow> 'f pyval \<Rightarrow> 'f pyval \<Rightarrow> 'f pyval
     \<Rightarrow> 'f pyval \<Rightarrow> 'f pyval \<Rightarrow> ('f, 'f pyval) action" where
  "modify_order_otoco env order_id1 order_id2 order_id3 stock price stop_loss_price
       limit_profit_price time_in_force quant =
     bnd (build_req_headers env False True True) (\<lambda>_.
     bnd (otoco_leg env ''LMT'' time_in_force quant (Some order_id1) ''BUY'' stock ''lmtPrice''
            price ''MASTER'' (Some (uuid4 env 0))) (\<lambda>m1.
     bnd (otoco_leg env ''STP'' time_in_force quant (Some order_id2) ''SELL'' stock ''auxPrice''
            stop_loss_price ''STOP_LOSS'' (Some (uuid4 env 1))) (\<lambda>m2.
     bnd (otoco_leg env ''LMT'' time_in_force quant (Some order_id3) ''SELL'' stock ''lmtPrice''
            limit_profit_price ''STOP_PROFIT'' (Some (uuid4 env 2))) (\<lambda>m3.
     bnd (\<lambda>s. post_with_headers env (endpoints_modify_otoco_orders env (account_id s))
                 (Some (PDict [(''modifyOrders'', PList [m1, m2, m3]),
                               (''serialId'', PStr (uuid4 env 3))])) s) (\<lambda>response.
     lift (response_json response))))))"

definition cancel_order_otoco :: "'f env \<Rightarrow> 'f pyval \<Rightarrow> ('f, 'f pyval) action" where
  "cancel_order_otoco env combo_id =
     bnd (build_req_headers env True True True) (\<lambda>_.
     bnd (\<lambda>s. post_with_headers env (endpoints_cancel_otoco_orders env (account_id s) combo_id)
                 (Some (PDict [])) s) (\<lambda>response.
     lift (response_json response)))"

subsection \<open>Crypto and option orders\<close>

definition place_order_crypto ::
  "'f env \<Rightarrow> 'f pyval \<Rightarrow> 'f pyval \<Rightarrow> 'f pyval \<Rightarrow> 'f pyval \<Rightarrow> 'f pyval \<Rightarrow> 'f pyval \<Rightarrow> 'f pyval
     \<Rightarrow> 'f pyval \<Rightarrow> 'f pyval \<Rightarrow> ('f, 'f pyval) action" where
  "place_order_crypto env stock tId price action orderType enforce entrust_type quant
       outsideRegularTradingHour =
     bnd (resolve_tId env stock tId) (\<lambda>tId'.
     bnd (build_req_headers env True True True) (\<lambda>_.
     let data = [(''action'', action),
                 (''assetType'', PStr ''crypto''),
                 (''comboType'', PStr ''NORMAL''),
                 (''entrustType'', entrust_type),
                 (''lmtPrice'', PStr (py_str env price)),
                 (''orderType'', orderType),
                 (''outsideRegularTradingHour'', outsideRegularTradingHour),
                 (''quantity'', PStr (py_str env quant)),
                 (''serialId'', PStr (uuid4 env 0)),
                 (''tickerId'', tId'),
                 (''timeInForce'', enforce)]
     in
     bnd (\<lambda>s. post_with_headers env (endpoints_place_orders env (account_id s))
                 (Some (PDict data)) s) (\<lambda>response.
     lift (response_json response))))"

definition place_order_option ::
  "'f env \<Rightarrow> 'f pyval \<Rightarrow> 'f pyval \<Rightarrow> 'f pyval \<Rightarrow> 'f pyval \<Rightarrow> 'f pyval \<Rightarrow> 'f pyval \<Rightarrow> 'f pyval
     \<Rightarrow> ('f, 'f pyval) action" where
  "place_order_option env optionId lmtPrice stpPrice action orderType enforce quant =
     bnd (build_req_headers env True True True) (\<lambda>_.
     bnd (lift (py_int env quant)) (\<lambda>q.
     bnd (lift (py_int env optionId)) (\<lambda>oid.
     let data = [(''orderType'', orderType),
                 (''serialId'', PStr (uuid4 env 0)),
                 (''timeInForce'', enforce),
                 (''orders'', PList [PDict [(''quantity'', PInt q),
                                            (''action'', action),
                                            (''tickerId'', PInt oid),
                                            (''tickerType'', PStr ''OPTION'')]])]
     in
     bnd (lift
            (if orderType = PStr ''LMT'' \<and> truthy env lmtPrice then
               bindE (py_float env lmtPrice) (\<lambda>p. Inr (dict_set ''lmtPrice'' (PFloat p) data))
             else if orderType = PStr ''STP'' \<and> truthy env stpPrice then
               bindE (py_float env stpPrice) (\<lambda>a. Inr (dict_set ''auxPrice'' (PFloat a) data))
             else if orderType = PStr ''STP LMT'' \<and> truthy env lmtPrice \<and> truthy env stpPrice then
               bindE (py_float env lmtPrice) (\<lambda>p.
               bindE (py_float env stpPrice) (\<lambda>a.
                 Inr (dict_set ''auxPrice'' (PFloat a) (dict_set ''lmtPrice'' (PFloat p) data))))
             else Inr data)) (\<lambda>data'.
     bnd (\<lambda>s. post_with_headers env (endpoints_place_option_orders env (account_id s))
                 (Some (PDict data')) s) (\<lambda>response.
     if status_code response \<noteq> 200 then
       throw (RequestFailed ''place_option_order failed'' (status_code response))
     else lift (response_json response))))))"

text \<open>\<^verbatim>\<open>(x or order.get(k))\<close> as a condition.\<close>

definition given_or_in_order :: "'f env \<Rightarrow> 'f pyval \<Rightarrow> 'f pyval \<Rightarrow> string \<Rightarrow> exn + bool" where
  "given_or_in_order env x order k =
     (if truthy env x then Inr True else bindE (dict_get order k) (\<lambda>v. Inr (truthy env v)))"

definition modify_order_option ::
  "'f env \<Rightarrow> 'f pyval \<Rightarrow> 'f pyval \<Rightarrow> 'f pyval \<Rightarrow> 'f pyval \<Rightarrow> 'f pyval \<Rightarrow> ('f, 'f pyval) action" where
  "modify_order_option env order lmtPrice stpPrice enforce quant =
     bnd (build_req_headers env True True True) (\<lambda>_.
     bnd (lift (getitem order ''comboId'')) (\<lambda>comboId.
     bnd (lift (getitem order ''orderType'')) (\<lambda>otype.
     bnd (lift (or_else env enforce (getitem order ''timeInForce''))) (\<lambda>tif.
     bnd (lift (or_else env quant (getitem order ''totalQuantity''))) (\<lambda>q.
     bnd (lift (getitem order ''action'')) (\<lambda>act.
     bnd (lift (bindE (getitem order ''ticker'') (\<lambda>t. getitem t ''tickerId''))) (\<lambda>tid.
     bnd (lift (getitem order ''orderId'')) (\<lambda>oid.
     let data = [(''comboId'', comboId),
                 (''orderType'', otype),
                 (''timeInForce'', tif),
                 (''serialId'', PStr (uuid4 env 0)),
                 (''orders'', PList [PDict [(''quantity'', q),
                                            (''action'', act),
                                            (''tickerId'', tid),
                                            (''tickerType'', PStr ''OPTION''),
                                            (''orderId'', oid)]])]
     in
     bnd (lift
            (bindE (if otype = PStr ''LMT'' then given_or_in_order env lmtPrice order ''lmtPrice''
                    else Inr False) (\<lambda>c1.
             if c1 then
               bindE (or_else env lmtPrice (getitem order ''lmtPrice'')) (\<lambda>p.
                 Inr (dict_set ''lmtPrice'' p data))
             else
             bindE (if otype = PStr ''STP'' then given_or_in_order env stpPrice order ''auxPrice''
                    else Inr False) (\<lambda>c2.
             if c2 then
               bindE (or_else env stpPrice (getitem order ''auxPrice'')) (\<lambda>a.
                 Inr (dict_set ''auxPrice'' a data))
             else
             bindE (if otype = PStr ''STP LMT'' then
                      bindE (given_or_in_order env stpPrice order ''auxPrice'') (\<lambda>b.
                        if b then given_or_in_order env lmtPrice order ''lmtPrice''
                        else Inr False)
                    else Inr False) (\<lambda>c3.
             if c3 then
               bindE (or_else env stpPrice (getitem order ''auxPrice'')) (\<lambda>a.
               bindE (or_else env lmtPrice (getitem order ''lmtPrice'')) (\<lambda>p.
                 Inr (dict_set ''lmtPrice'' p (dict_set ''auxPrice'' a data))))
             else Inr data))))) (\<lambda>data'.
     bnd (\<lambda>s. post_with_headers env (endpoints_replace_option_orders env (account_id s))
                 (Some (PDict data')) s) (\<lambda>response.
     if status_code response \<noteq> 200 then
       throw (RequestFailed ''replace_option_order failed'' (status_code response))
     else ret (PBool True)))))))))))"

subsection \<open>Screener\<close>

text \<open>
  \<^verbatim>\<open>run_screener\<close> posts without headers. The parameter \<^verbatim>\<open>region\<close> is not used by the
  method; \<open>sort_arg\<close> is its parameter \<^verbatim>\<open>sort\<close>.
\<close>

definition screener_rules ::
  "'f env \<Rightarrow> 'f pyval \<Rightarrow> 'f pyval \<Rightarrow> 'f pyval \<Rightarrow> 'f pyval \<Rightarrow> 'f pyval \<Rightarrow> 'f pyval
     \<Rightarrow> (string \<times> 'f pyval) list" where
  "screener_rules env price_lte price_gte pct_chg_gte pct_chg_lte vol_lte vol_gte =
     (let r0 = [(''wlas.screener.rule.region'', PStr ''securities.region.name.6'')];
          r1 = (if price_lte \<noteq> PNone \<and> price_gte \<noteq> PNone
                then dict_set ''wlas.screener.rule.price''
                       (PStr (''gte='' @ py_str env price_lte @ ''&lte='' @ py_str env price_gte)) r0
                else r0);
          r2 = (if vol_lte \<noteq> PNone \<and> vol_gte \<noteq> PNone
                then dict_set ''wlas.screener.rule.volume''
                       (PStr (''gte='' @ py_str env vol_lte @ ''&lte='' @ py_str env vol_gte)) r1
                else r1);
          r3 = (if pct_chg_lte \<noteq> PNone \<and> pct_chg_gte \<noteq> PNone
                then dict_set ''wlas.screener.rule.changeRatio''
                       (PStr (''gte='' @ py_str env pct_chg_lte @ ''&lte=''
                                @ py_str env pct_chg_gte)) r2
                else r2)
      in r3)"

definition run_screener ::
  "'f env \<Rightarrow> 'f pyval \<Rightarrow> 'f pyval \<Rightarrow> 'f pyval \<Rightarrow> 'f pyval \<Rightarrow> 'f pyval \<Rightarrow> 'f pyval \<Rightarrow> 'f pyval
     \<Rightarrow> 'f pyval \<Rightarrow> 'f pyval \<Rightarrow> ('f, 'f pyval) action" where
  "run_screener env region price_lte price_gte pct_chg_gte pct_chg_lte sort_arg sort_dir
       vol_lte vol_gte =
     (let rules = screener_rules env price_lte price_gte pct_chg_gte pct_chg_lte vol_lte vol_gte;
          s0 = [];
          s1 = (if sort_arg = PNone then dict_set ''rule'' (PStr ''wlas.screener.rule.price'') s0
                else s0);
          s2 = (if sort_dir = PNone then dict_set ''desc'' (PStr ''true'') s1 else s1);
          jdict = [(''fetch'', PInt 200),
                   (''rules'', PDict rules),
                   (''sort'', PDict s2),
                   (''attach'', PDict [(''hkexPrivilege'', PStr ''true'')])]
      in
      bnd (\<lambda>s. send env \<lparr>meth = POST, url = endpoints_screener, params = None,
                           json = Some (PDict jdict), hdrs = None, req_timeout = timeout s\<rparr> s)
        (\<lambda>response.
      lift (response_json response)))"

subsection \<open>Bars\<close>

text \<open>\<^verbatim>\<open>row.split(',')\<close>: every comma separates; the empty string gives one empty field.\<close>

fun split_on :: "char \<Rightarrow> string \<Rightarrow> string list" where
  "split_on c [] = [[]]"
| "split_on c (x # xs) =
     (if x = c then [] # split_on c xs
      else (case split_on c xs of [] \<Rightarrow> [[x]] | w # ws \<Rightarrow> (x # w) # ws))"

definition null_to_zero :: "string \<Rightarrow> string" where
  "null_to_zero v = (if v = ''null'' then ''0'' else v)"

record 'f bar =
  bar_open :: 'f
  bar_high :: 'f
  bar_low :: 'f
  bar_close :: 'f
  bar_volume :: 'f
  bar_vwap :: 'f

text \<open>
  The body of the loop of \<^verbatim>\<open>get_bars\<close> for one row: the row dictionary, whose values are
  evaluated in the order open, high, low, close, volume, vwap, and then the index, the
  instant \<^verbatim>\<open>int(row[0])\<close> seconds after the epoch. A row that is not a string has no
  \<^verbatim>\<open>split\<close>.
\<close>

definition bar_of_row :: "'f env \<Rightarrow> 'f pyval \<Rightarrow> exn + (int \<times> 'f bar)" where
  "bar_of_row env row =
     (case row of
        PStr r \<Rightarrow>
          (let cols = map null_to_zero (split_on CHR '','' r) in
           bindE (bindE (list_index cols 1) (\<lambda>c. py_float env (PStr c))) (\<lambda>op.
           bindE (bindE (list_index cols 3) (\<lambda>c. py_float env (PStr c))) (\<lambda>hi.
           bindE (bindE (list_index cols 4) (\<lambda>c. py_float env (PStr c))) (\<lambda>lo.
           bindE (bindE (list_index cols 2) (\<lambda>c. py_float env (PStr c))) (\<lambda>cl.
           bindE (bindE (list_index cols 6) (\<lambda>c. py_float env (PStr c))) (\<lambda>vo.
           bindE (bindE (list_index cols 7) (\<lambda>c. py_float env (PStr c))) (\<lambda>vw.
           bindE (bindE (list_index cols 0) (\<lambda>c. py_int env (PStr c))) (\<lambda>t.
           if valid_timestamp env t then
             Inr (t, \<lparr>bar_open = op, bar_high = hi, bar_low = lo, bar_close = cl,
                       bar_volume = vo, bar_vwap = vw\<rparr>)
           else Inl OverflowError))))))))
      | _ \<Rightarrow> Inl AttributeError)"

text \<open>
  The data frame is the list of its rows with their index, in order. \<^verbatim>\<open>df.loc[t] = data\<close>
  overwrites the row of an index that is present and appends a row otherwise.
\<close>

fun bars_loop ::
  "'f env \<Rightarrow> 'f pyval list \<Rightarrow> (int \<times> 'f bar) list \<Rightarrow> exn + (int \<times> 'f bar) list" where
  "bars_loop env [] df = Inr df"
| "bars_loop env (row # rows) df =
     bindE (bar_of_row env row) (\<lambda>tb. bars_loop env rows (AList.update (fst tb) (snd tb) df))"

text \<open>From the parsed response to the frame that is returned, \<^verbatim>\<open>df.iloc[::-1]\<close>.\<close>

definition bars_frame :: "'f env \<Rightarrow> 'f pyval \<Rightarrow> exn + (int \<times> 'f bar) list" where
  "bars_frame env result =
     bindE (bindE (getindex result 0) (\<lambda>r0. getitem r0 ''timeZone'')) (\<lambda>tz.
     if tz_known env tz then
       bindE (bindE (bindE (getindex result 0) (\<lambda>r0. getitem r0 ''data'')) py_iter) (\<lambda>rows.
       bindE (bars_loop env rows []) (\<lambda>df. Inr (rev df)))
     else Inl UnknownTimeZoneError)"

definition get_bars ::
  "'f env \<Rightarrow> 'f pyval \<Rightarrow> 'f pyval \<Rightarrow> 'f pyval \<Rightarrow> 'f pyval \<Rightarrow> 'f pyval \<Rightarrow> 'f pyval
     \<Rightarrow> ('f, (int \<times> 'f bar) list) action" where
  "get_bars env stock tId interval count extendTrading timeStamp =
     bnd (build_req_headers env False False True) (\<lambda>_.
     bnd (resolve_tId env stock tId) (\<lambda>tId'.
     bnd (get_with_headers env (endpoints_bars env tId')
            (Some [(''type'', interval), (''count'', count),
                   (''extendTrading'', extendTrading), (''timestamp'', timeStamp)]))
       (\<lambda>response.
     bnd (lift (response_json response)) (\<lambda>result.
     lift (bars_frame env result)))))"

section \<open>The paper-trading client\<close>

text \<open>
  The methods that \<^verbatim>\<open>PaperWebull\<close> overrides; every other method is inherited. A call of
  \<^verbatim>\<open>self.get_account()\<close> in the subclass is a call of its own \<^verbatim>\<open>get_account\<close>.
\<close>

definition paper_get_account :: "'f env \<Rightarrow> ('f, 'f pyval) action" where
  "paper_get_account env =
     bnd (build_req_headers env False False True) (\<lambda>_.
     bnd (\<lambda>s. get_with_headers env (endpoints_paper_account env (account_id s)) None s)
       (\<lambda>response.
     lift (response_json response)))"

definition paper_get_account_id :: "'f env \<Rightarrow> ('f, 'f pyval) action" where
  "paper_get_account_id env =
     bnd (build_req_headers env False False True) (\<lambda>_.
     bnd (get_with_headers env endpoints_paper_account_id None) (\<lambda>response.
     bnd (lift (response_json response)) (\<lambda>result.
     bnd (lift (if result = PNone then Inr False
                else bindE (py_len result) (\<lambda>n.
                  if 0 < n then bindE (getindex result 0) (\<lambda>r0. contains r0 ''id'')
                  else Inr False))) (\<lambda>found.
     if found then
       bnd (lift (bindE (getindex result 0) (\<lambda>r0. getitem r0 ''id''))) (\<lambda>ident.
       bnd (\<lambda>s. (Inr (), s\<lparr>account_id := ident\<rparr>)) (\<lambda>_.
       ret ident))
     else ret PNone))))"

definition paper_get_current_orders :: "'f env \<Rightarrow> ('f, 'f pyval) action" where
  "paper_get_current_orders env =
     bnd (paper_get_account env) (\<lambda>data. lift (getitem data ''openOrders''))"

definition paper_get_history_orders ::
  "'f env \<Rightarrow> 'f pyval \<Rightarrow> 'f pyval \<Rightarrow> ('f, 'f pyval) action" where
  "paper_get_history_orders env status count =
     bnd (build_req_headers env True True True) (\<lambda>_.
     bnd (\<lambda>s. get_with_headers env
                (endpoints_paper_orders env (account_id s) count @ py_str env status) None s)
       (\<lambda>response.
     lift (response_json response)))"

text \<open>
  \<^verbatim>\<open>d[k] = v\<close> on a dictionary whose keys are arbitrary values: two keys are the same key
  when Python's \<^verbatim>\<open>==\<close> holds between them (\<open>1\<close>, \<open>1.0\<close> and \<open>True\<close> are one key); the
  entry keeps the key it was created with.
\<close>

fun dict_store ::
  "'f env \<Rightarrow> 'f pyval \<Rightarrow> 'f pyval \<Rightarrow> ('f pyval \<times> 'f pyval) list \<Rightarrow> ('f pyval \<times> 'f pyval) list"
  where
  "dict_store env k v [] = [(k, v)]"
| "dict_store env k v (kv # d) =
     (if py_eq env (fst kv) k then (fst kv, v) # d else kv # dict_store env k v d)"

text \<open>
  The loop of \<^verbatim>\<open>PaperWebull.get_positions\<close>: \<^verbatim>\<open>positions[symbol] = item\<close>. A list or a
  dictionary cannot be a key.
\<close>

fun positions_loop ::
  "'f env \<Rightarrow> 'f pyval list \<Rightarrow> ('f pyval \<times> 'f pyval) list
     \<Rightarrow> exn + ('f pyval \<times> 'f pyval) list" where
  "positions_loop env [] positions = Inr positions"
| "positions_loop env (item # items) positions =
     bindE (bindE (getitem item ''ticker'') (\<lambda>t. getitem t ''symbol'')) (\<lambda>symbol.
       case symbol of
         PList _ \<Rightarrow> Inl TypeError
       | PDict _ \<Rightarrow> Inl TypeError
       | _ \<Rightarrow> positions_loop env items (dict_store env symbol item positions))"

definition paper_get_positions :: "'f env \<Rightarrow> ('f, ('f pyval \<times> 'f pyval) list) action" where
  "paper_get_positions env =
     bnd (paper_get_account env) (\<lambda>account.
     bnd (lift (getitem account ''positions'')) (\<lambda>positions_data.
     bnd (lift (py_iter positions_data)) (\<lambda>items.
     lift (positions_loop env items []))))"

definition paper_place_order ::
  "'f env \<Rightarrow> 'f pyval \<Rightarrow> 'f pyval \<Rightarrow> 'f pyval \<Rightarrow> 'f pyval \<Rightarrow> 'f pyval \<Rightarrow> 'f pyval \<Rightarrow> 'f pyval
     \<Rightarrow> 'f pyval \<Rightarrow> ('f, 'f pyval) action" where
  "paper_place_order env stock tId price action orderType enforce quant
       outsideRegularTradingHour =
     bnd (resolve_tId env stock tId) (\<lambda>tId'.
     bnd (build_req_headers env True True True) (\<lambda>_.
     bnd (lift (py_float env price)) (\<lambda>p.
     bnd (lift (py_int env quant)) (\<lambda>q.
     let data = [(''action'', action),
                 (''lmtPrice'', PFloat p),
                 (''orderType'', orderType),
                 (''outsideRegularTradingHour'', outsideRegularTradingHour),
                 (''quantity'', PInt q),
                 (''serialId'', PStr (uuid4 env 0)),
                 (''tickerId'', tId'),
                 (''timeInForce'', enforce)];
         data' = (if orderType = PStr ''MKT''
                  then dict_set ''outsideRegularTradingHour'' (PBool False) data else data)
     in
     bnd (\<lambda>s. post_with_headers env (endpoints_paper_place_order env (account_id s) tId')
                 (Some (PDict data')) s) (\<lambda>response.
     lift (response_json response))))))"

definition paper_modify_order ::
  "'f env \<Rightarrow> 'f pyval \<Rightarrow> 'f pyval \<Rightarrow> 'f pyval \<Rightarrow> 'f pyval \<Rightarrow> 'f pyval \<Rightarrow> 'f pyval \<Rightarrow> 'f pyval
     \<Rightarrow> ('f, 'f pyval) action" where
  "paper_modify_order env order price action orderType enforce quant outsideRegularTradingHour =
     bnd (build_req_headers env False False True) (\<lambda>_.
     bnd (lift (py_float env price)) (\<lambda>p.
     bnd (lift (bindE (getitem order ''ticker'') (\<lambda>t. getitem t ''tickerId''))) (\<lambda>tid.
     let data = [(''action'', action),
                 (''lmtPrice'', PFloat p),
                 (''orderType'', orderType),
                 (''comboType'', PStr ''NORMAL''),
                 (''outsideRegularTradingHour'', outsideRegularTradingHour),
                 (''serialId'', PStr (uuid4 env 0)),
                 (''tickerId'', tid),
                 (''timeInForce'', enforce)]
     in
     bnd (lift (if eq_zero env quant then Inr True
                else bindE (getitem order ''totalQuantity'') (\<lambda>tq. Inr (py_eq env quant tq))))
       (\<lambda>keep.
     bnd (lift (if keep then getitem order ''totalQuantity''
                else bindE (py_int env quant) (\<lambda>q. Inr (PInt q)))) (\<lambda>quantity.
     bnd (lift (getitem order ''orderId'')) (\<lambda>oid.
     bnd (\<lambda>s. post_with_headers env (endpoints_paper_modify_order env (account_id s) oid)
                 (Some (PDict (dict_set ''quantity'' quantity data))) s) (\<lambda>response.
     if response_ok response then ret (PBool True)
     else bnd (lift (response_json response)) (\<lambda>_. ret (PBool False)))))))))"

definition paper_cancel_order :: "'f env \<Rightarrow> 'f pyval \<Rightarrow> ('f, 'f pyval) action" where
  "paper_cancel_order env order_id =
     bnd (build_req_headers env False False True) (\<lambda>_.
     bnd (\<lambda>s. post_with_headers env (endpoints_paper_cancel_order env (account_id s) order_id)
                 None s) (\<lambda>response.
     ret (PBool (response_ok response))))"

section \<open>An environment for examples\<close>

text \<open>
  The theorems below hold for every environment. Their instances at concrete inputs are
  evaluated in this one: a float is represented by an integer (the floats with an integral
  value); \<^verbatim>\<open>str\<close> prints strings, integers, \<^verbatim>\<open>None\<close> and booleans as Python does and
  prints such a float with \<^verbatim>\<open>.0\<close>; \<^verbatim>\<open>int\<close> and \<^verbatim>\<open>float\<close> read numbers, booleans and
  strings of decimal digits, and raise on everything else. The vendor is a parameter.
\<close>

fun show_nat :: "nat \<Rightarrow> string" where
  "show_nat n =
     (if n < 10 then [''0123456789'' ! n]
      else show_nat (n div 10) @ [''0123456789'' ! (n mod 10)])"

declare show_nat.simps [simp del]

definition show_int :: "int \<Rightarrow> string" where
  "show_int i = (if i < 0 then CHR ''-'' # show_nat (nat (- i)) else show_nat (nat i))"

definition digit_of :: "char \<Rightarrow> nat option" where
  "digit_of =
     map_of [(CHR ''0'', 0), (CHR ''1'', 1), (CHR ''2'', 2), (CHR ''3'', 3), (CHR ''4'', 4),
             (CHR ''5'', 5), (CHR ''6'', 6), (CHR ''7'', 7), (CHR ''8'', 8), (CHR ''9'', 9)]"

fun read_digits :: "nat \<Rightarrow> string \<Rightarrow> nat option" where
  "read_digits acc [] = Some acc"
| "read_digits acc (c # cs) =
     (case digit_of c of None \<Rightarrow> None | Some d \<Rightarrow> read_digits (10 * acc + d) cs)"

fun example_number :: "int pyval \<Rightarrow> exn + int" where
  "example_number (PInt i) = Inr i"
| "example_number (PBool b) = Inr (if b then 1 else 0)"
| "example_number (PFloat x) = Inr x"
| "example_number (PStr s) =
     (if s = [] then Inl (ValueError ''not a number'')
      else case read_digits 0 s of
             None \<Rightarrow> Inl (ValueError ''not a number'')
           | Some n \<Rightarrow> Inr (int n))"
| "example_number v = Inl TypeError"

fun example_str :: "int pyval \<Rightarrow> string" where
  "example_str (PStr s) = s"
| "example_str (PInt i) = show_int i"
| "example_str PNone = ''None''"
| "example_str (PBool b) = (if b then ''True'' else ''False'')"
| "example_str (PFloat x) = show_int x @ ''.0''"
| "example_str (PList xs) = ''[...]''"
| "example_str (PDict d) = ''{...}''"

definition example_env :: "(nat \<Rightarrow> int request \<Rightarrow> exn + int response) \<Rightarrow> int env" where
  "example_env vendor =
     \<lparr>py_str = example_str,
      py_float = example_number,
      py_int = example_number,
      float_is_zero = (\<lambda>x. x = 0),
      py_eq = (\<lambda>a b. a = b),
      http = vendor,
      now_ms = 1700000000000,
      uuid4 = (\<lambda>k. ''uuid-'' @ show_nat k),
      tz_known = (\<lambda>v. v = PStr ''America/New_York''),
      validate_email = (\<lambda>v. case v of
                               PStr s \<Rightarrow> if CHR ''@'' \<in> set s then Inr ()
                                         else Inl EmailNotValidError
                             | _ \<Rightarrow> Inl TypeError),
      quote = (\<lambda>v. case v of PStr s \<Rightarrow> Inr s | _ \<Rightarrow> Inl TypeError),
      timestamp_ms = 1700000000000,
      writable = (\<lambda>p. True),
      valid_timestamp = (\<lambda>t. True),
      prompt = (\<lambda>p. Inr ''typed''),
      md5_hex = (\<lambda>p. ''md5-'' @ p),
      before_today = (\<lambda>t z. t < 1700000000)\<rparr>"

text \<open>A vendor that answers every request with status 200 and the same JSON value.\<close>

definition answering :: "int pyval \<Rightarrow> nat \<Rightarrow> int request \<Rightarrow> exn + int response" where
  "answering v = (\<lambda>n rq. Inr \<lparr>status_code = 200, body = Some v\<rparr>)"

text \<open>A client as \<^verbatim>\<open>__init__\<close> leaves it, with the device id \<open>d\<close> read from the cache file.\<close>

definition init :: "'f pyval \<Rightarrow> 'f webull" where
  "init d =
     \<lparr>headers =
        [(''User-Agent'',
          PStr ''Mozilla/5.0 (Macintosh; Intel Mac OS X 10.15; rv:99.0) Gecko/20100101 Firefox/99.0''),
         (''Accept'', PStr ''*/*''),
         (''Accept-Encoding'', PStr ''gzip, deflate''),
         (''Content-Type'', PStr ''application/json''),
         (''platform'', PStr ''web''),
         (''app'', PStr ''global''),
         (''appid'', PStr ''webull-webapp''),
         (''ver'', PStr ''3.39.18''),
         (''lzone'', PStr ''dc_core_r001''),
         (''device-type'', PStr ''Web''),
         (''did'', d)],
      account_id = PStr [],
      trade_token = PStr [],
      access_token = PStr [],
      refresh_token = PStr [],
      token_expire = PStr [],
      uuid = PStr [],
      did = d,
      region_code = PInt 6,
      zone_var = PStr ''dc_core_r001'',
      timeout = 15,
      credential_data = None,
      trade_pin = None,
      sent = [],
      files = []\<rparr>"

text \<open>
  A lookup response whose exact match for the symbol \<^verbatim>\<open>A\<close> is the second item, with the
  ticker id \<open>0\<close>.
\<close>

definition ticker_response :: "int pyval" where
  "ticker_response =
     PDict [(''data'', PList [PDict [(''symbol'', PStr ''X''), (''tickerId'', PInt 5)],
                              PDict [(''symbol'', PStr ''A''), (''tickerId'', PInt 0)]])]"

subsection \<open>Notions used in the statements\<close>

text \<open>
  The requests that \<^verbatim>\<open>get_ticker\<close> sends from a state (one lookup when the symbol is a
  non-empty string, none otherwise), the requests that the ticker prologue sends, and the
  relation between two states of the client that differ at most in the header dictionary and
  in the log of requests.
\<close>

definition lookup_requests :: "'f env \<Rightarrow> 'f pyval \<Rightarrow> 'f webull \<Rightarrow> 'f request list" where
  "lookup_requests env stock s =
     (case stock of
        PStr st \<Rightarrow>
          if st \<noteq> [] then
            [\<lparr>meth = GET, url = endpoints_stock_id env stock (region_code s), params = None,
              json = None,
              hdrs = Some (headers (snd (build_req_headers env False False True s))),
              req_timeout = timeout s\<rparr>]
          else []
      | _ \<Rightarrow> [])"

definition resolve_requests ::
  "'f env \<Rightarrow> 'f pyval \<Rightarrow> 'f pyval \<Rightarrow> 'f webull \<Rightarrow> 'f request list" where
  "resolve_requests env stock tId s =
     (if tId \<noteq> PNone \<or> stock = PNone then [] else lookup_requests env stock s)"

definition session_unchanged :: "'f webull \<Rightarrow> 'f webull \<Rightarrow> bool" where
  "session_unchanged s s' \<longleftrightarrow>
     account_id s' = account_id s \<and> trade_token s' = trade_token s
     \<and> access_token s' = access_token s \<and> refresh_token s' = refresh_token s
     \<and> token_expire s' = token_expire s \<and> uuid s' = uuid s \<and> did s' = did s
     \<and> region_code s' = region_code s \<and> zone_var s' = zone_var s
     \<and> timeout s' = timeout s \<and> credential_data s' = credential_data s
     \<and> trade_pin s' = trade_pin s \<and> files s' = files s"

text \<open>
  The request of \<^verbatim>\<open>refresh_login\<close> when the refresh token is the string \<open>rt\<close>, and the
  relation between the states before and after a refresh that took the three tokens from
  \<open>result\<close> and left the other attributes alone.
\<close>

definition refresh_request :: "'f env \<Rightarrow> 'f webull \<Rightarrow> string \<Rightarrow> 'f request" where
  "refresh_request env s rt =
     \<lparr>meth = POST, url = endpoints_refresh_login @ rt, params = None,
      json = Some (PDict [(''refreshToken'', refresh_token s)]),
      hdrs = Some (headers (snd (build_req_headers env False False True s))),
      req_timeout = timeout s\<rparr>"

definition tokens_refreshed :: "'f pyval \<Rightarrow> 'f webull \<Rightarrow> 'f webull \<Rightarrow> bool" where
  "tokens_refreshed result s s' \<longleftrightarrow>
     getitem result ''accessToken'' = Inr (access_token s')
     \<and> getitem result ''refreshToken'' = Inr (refresh_token s')
     \<and> getitem result ''tokenExpireTime'' = Inr (token_expire s')
     \<and> account_id s' = account_id s \<and> trade_token s' = trade_token s \<and> uuid s' = uuid s
     \<and> did s' = did s \<and> region_code s' = region_code s \<and> zone_var s' = zone_var s
     \<and> timeout s' = timeout s \<and> credential_data s' = credential_data s
     \<and> trade_pin s' = trade_pin s"

text \<open>Two responses to a refresh: one without a refresh token, one complete.\<close>

definition partial_refresh_response :: "int pyval" where
  "partial_refresh_response = PDict [(''accessToken'', PStr ''a1'')]"

definition full_refresh_response :: "int pyval" where
  "full_refresh_response =
     PDict [(''accessToken'', PStr ''a1''), (''refreshToken'', PStr ''r1''),
            (''tokenExpireTime'', PStr ''2030-01-01'')]"

text \<open>A response of the bars endpoint with two rows, the second with \<^verbatim>\<open>null\<close> fields.\<close>

definition bars_response :: "int pyval" where
  "bars_response =
     PList [PDict [(''timeZone'', PStr ''America/New_York''),
                   (''data'', PList [PStr ''1700000060,10,11,12,9,5,500,10'',
                                     PStr ''1700000000,7,8,null,6,5,null,null''])]]"

text \<open>
  The calls of \<^verbatim>\<open>get_history_orders\<close> with no argument, from the defaults of the two
  signatures: \<^verbatim>\<open>status='All', count=20\<close> in \<^verbatim>\<open>Webull\<close> and
  \<^verbatim>\<open>status='Cancelled', count=20\<close> in \<^verbatim>\<open>PaperWebull\<close>.
\<close>

definition get_history_orders_default :: "'f env \<Rightarrow> ('f, 'f pyval) action" where
  "get_history_orders_default env = get_history_orders env (PStr ''All'') (PInt 20)"

definition paper_get_history_orders_default :: "'f env \<Rightarrow> ('f, 'f pyval) action" where
  "paper_get_history_orders_default env =
     paper_get_history_orders env (PStr ''Cancelled'') (PInt 20)"

text \<open>
  What the base method and its override have in common where they only differ in the
  endpoint: build the headers (with the trade token and the time when \<open>tt\<close>), send a GET to
  the URL, return the JSON of the response.
\<close>

definition fetch_json :: "'f env \<Rightarrow> bool \<Rightarrow> string \<Rightarrow> ('f, 'f pyval) action" where
  "fetch_json env tt u =
     bnd (build_req_headers env tt tt True) (\<lambda>_.
     bnd (get_with_headers env u None) (\<lambda>response.
     lift (response_json response)))"

text \<open>An account with one position, as both account endpoints return it.\<close>

definition account_response :: "int pyval" where
  "account_response =
     PDict [(''positions'',
             PList [PDict [(''ticker'', PDict [(''symbol'', PStr ''AAPL'')]),
                           (''position'', PStr ''3'')]]),
            (''openOrders'', PList [])]"

text \<open>
  The trade token in the requests of a call. A request is fine for the entry \<open>tok\<close> when,
  if it is a POST, it has headers and their \<^verbatim>\<open>t_token\<close> entry is \<open>tok\<close> (\<open>None\<close>: no
  entry). \<open>posts_carry s s' tok\<close>: the requests sent between the states \<open>s\<close> and \<open>s'\<close> are
  all fine. \<open>token_triple P m Q tok\<close>: started in a state with \<open>P\<close>, the action \<open>m\<close> sends
  only requests that are fine, and \<open>Q\<close> holds afterwards if it returns normally.
\<close>

definition good_post :: "'f pyval option \<Rightarrow> 'f request \<Rightarrow> bool" where
  "good_post tok rq \<longleftrightarrow>
     (meth rq = POST \<longrightarrow> (\<exists>h. hdrs rq = Some h \<and> map_of h ''t_token'' = tok))"

definition posts_carry :: "'f webull \<Rightarrow> 'f webull \<Rightarrow> 'f pyval option \<Rightarrow> bool" where
  "posts_carry s s' tok \<longleftrightarrow> (\<exists>rs. sent s' = sent s @ rs \<and> (\<forall>rq \<in> set rs. good_post tok rq))"

definition token_inv :: "'f pyval option \<Rightarrow> 'f pyval \<Rightarrow> 'f webull \<Rightarrow> bool" where
  "token_inv tok tt s \<longleftrightarrow> map_of (headers s) ''t_token'' = tok \<and> trade_token s = tt"

definition t_token_of :: "'f request \<Rightarrow> 'f pyval option" where
  "t_token_of rq = (case hdrs rq of None \<Rightarrow> None | Some h \<Rightarrow> map_of h ''t_token'')"

definition token_triple ::
  "('f webull \<Rightarrow> bool) \<Rightarrow> ('f, 'a) action \<Rightarrow> ('f webull \<Rightarrow> bool) \<Rightarrow> 'f pyval option \<Rightarrow> bool" where
  "token_triple P m Q tok \<longleftrightarrow>
     (\<forall>s. P s \<longrightarrow> ((\<forall>x. fst (m s) = Inr x \<longrightarrow> Q (snd (m s))) \<and> posts_carry s (snd (m s)) tok))"

text \<open>
  Counting the requests of a call. \<open>issues m lo hi\<close>: from every state the action \<open>m\<close>
  sends at most \<open>hi\<close> requests, whatever its outcome, and at least \<open>lo\<close> when it returns
  normally.
\<close>

definition issues :: "('f, 'a) action \<Rightarrow> nat \<Rightarrow> nat \<Rightarrow> bool" where
  "issues m lo hi \<longleftrightarrow>
     (\<forall>s. \<exists>rs. sent (snd (m s)) = sent s @ rs \<and> length rs \<le> hi
             \<and> ((\<exists>x. fst (m s) = Inr x) \<longrightarrow> lo \<le> length rs))"

text \<open>
  The POST of \<^verbatim>\<open>place_order\<close> from the state \<open>s\<close> with the payload \<open>d\<close>: the headers are
  the header dictionary after \<^verbatim>\<open>build_req_headers(include_trade_token=True,
  include_time=True)\<close>.
\<close>

definition place_order_request ::
  "'f env \<Rightarrow> 'f webull \<Rightarrow> (string \<times> 'f pyval) list \<Rightarrow> 'f request" where
  "place_order_request env s d =
     \<lparr>meth = POST, url = endpoints_place_orders env (account_id s), params = None,
      json = Some (PDict d),
      hdrs = Some (headers (snd (build_req_headers env True True True s))),
      req_timeout = timeout s\<rparr>"

section \<open>Properties\<close>

subsection \<open>Rules for running an action\<close>

lemma lift_apply: "lift r s = (r, s)"
  by (simp add: lift_def)

lemma ret_apply: "ret x s = (Inr x, s)"
  by (simp add: ret_def)

lemma throw_apply: "throw e s = (Inl e, s)"
  by (simp add: throw_def)

lemma bnd_lift:
  "bnd (lift r) f s = (case r of Inl e \<Rightarrow> (Inl e, s) | Inr x \<Rightarrow> f x s)"
  by (cases r) (simp_all add: bnd_def lift_def)

lemma bnd_ret: "bnd (ret x) f s = f x s"
  by (simp add: bnd_def ret_def)

lemma bnd_throw: "bnd (throw e) f s = (Inl e, s)"
  by (simp add: bnd_def throw_def)

lemma bnd_build:
  "bnd (build_req_headers env a b c) f s = f () (snd (build_req_headers env a b c s))"
  by (simp add: bnd_def build_req_headers_def Let_def)

lemma bnd_get:
  "bnd (\<lambda>s. get_with_headers env (u s) ps s) f s =
     (let rq = \<lparr>meth = GET, url = u s, params = ps, json = None,
                 hdrs = Some (headers s), req_timeout = timeout s\<rparr>;
          s' = s\<lparr>sent := sent s @ [rq]\<rparr>
      in case http env (length (sent s)) rq of Inl e \<Rightarrow> (Inl e, s') | Inr r \<Rightarrow> f r s')"
  by (simp add: bnd_def get_with_headers_def send_def Let_def split: sum.split)

lemma bnd_post:
  "bnd (\<lambda>s. post_with_headers env (u s) (j s) s) f s =
     (let rq = \<lparr>meth = POST, url = u s, params = None, json = j s,
                 hdrs = Some (headers s), req_timeout = timeout s\<rparr>;
          s' = s\<lparr>sent := sent s @ [rq]\<rparr>
      in case http env (length (sent s)) rq of Inl e \<Rightarrow> (Inl e, s') | Inr r \<Rightarrow> f r s')"
  by (simp add: bnd_def post_with_headers_def send_def Let_def split: sum.split)

lemma snd_bnd_lift: "snd (bnd m (\<lambda>x. lift (g x)) s) = snd (m s)"
  by (cases "m s" rule: prod.exhaust; cases "fst (m s)") (auto simp: bnd_def lift_def)

lemma snd_send: "snd (send env rq s) = s\<lparr>sent := sent s @ [rq]\<rparr>"
  by (simp add: send_def)

lemma sent_build: "sent (snd (build_req_headers env a b c s)) = sent s"
  by (simp add: build_req_headers_def Let_def)

lemma example_env_sel:
  "py_str (example_env v) = example_str"
  "py_float (example_env v) = example_number"
  "py_int (example_env v) = example_number"
  "float_is_zero (example_env v) = (\<lambda>x. x = 0)"
  "py_eq (example_env v) = (\<lambda>a b. a = b)"
  "http (example_env v) = v"
  "now_ms (example_env v) = 1700000000000"
  "uuid4 (example_env v) = (\<lambda>k. ''uuid-'' @ show_nat k)"
  "tz_known (example_env v) = (\<lambda>x. x = PStr ''America/New_York'')"
  "validate_email (example_env v) =
     (\<lambda>x. case x of PStr s \<Rightarrow> if CHR ''@'' \<in> set s then Inr () else Inl EmailNotValidError
            | _ \<Rightarrow> Inl TypeError)"
  "quote (example_env v) = (\<lambda>x. case x of PStr s \<Rightarrow> Inr s | _ \<Rightarrow> Inl TypeError)"
  "timestamp_ms (example_env v) = 1700000000000"
  "writable (example_env v) = (\<lambda>p. True)"
  "valid_timestamp (example_env v) = (\<lambda>t. True)"
  "prompt (example_env v) = (\<lambda>p. Inr ''typed'')"
  "md5_hex (example_env v) = (\<lambda>p. ''md5-'' @ p)"
  "before_today (example_env v) = (\<lambda>t z. t < 1700000000)"
  by (simp_all add: example_env_def)


subsection \<open>Request headers\<close>

lemma build_req_headers_result:
  "fst (build_req_headers env tt tm zv s) = Inr ()"
  by (simp add: build_req_headers_def Let_def)

lemma build_req_headers_t_token:
  "map_of (headers (snd (build_req_headers env tt tm zv s))) ''t_token'' =
     (if tt then Some (trade_token s) else map_of (headers s) ''t_token'')"
  by (simp add: build_req_headers_def Let_def update_conv')

lemma build_req_headers_trade_token:
  "trade_token (snd (build_req_headers env tt tm zv s)) = trade_token s"
  by (simp add: build_req_headers_def Let_def)

lemma build_many_keeps_t_token:
  "map_of (headers s) ''t_token'' = Some v \<Longrightarrow>
   \<exists>w. map_of (headers (build_many env cs s)) ''t_token'' = Some w"
proof (induction cs arbitrary: s v)
  case Nil
  then show ?case by simp
next
  case (Cons c cs)
  obtain tt tm zv where c: "c = (tt, tm, zv)" by (cases c)
  have "\<exists>u. map_of (headers (snd (build_req_headers env tt tm zv s))) ''t_token'' = Some u"
    using Cons.prems by (simp add: build_req_headers_t_token)
  then show ?case using Cons.IH c by auto
qed

lemma build_many_without_trade_token:
  "\<forall>c \<in> set cs. \<not> fst c \<Longrightarrow>
   map_of (headers (build_many env cs s)) ''t_token'' = map_of (headers s) ''t_token''"
proof (induction cs arbitrary: s)
  case Nil
  then show ?case by simp
next
  case (Cons c cs)
  obtain tt tm zv where c: "c = (tt, tm, zv)" by (cases c)
  with Cons.prems have "\<not> tt" by simp
  then show ?case using Cons c by (simp add: build_req_headers_t_token)
qed

text \<open>
  C9. \<^verbatim>\<open>build_req_headers\<close> returns the client's own header dictionary, mutated in
  place: the headers it produces are the field \<open>headers\<close> of the object afterwards. So after
  one call with \<^verbatim>\<open>include_trade_token=True\<close>, the headers produced by any later sequence
  of calls, whatever their options, still have a \<^verbatim>\<open>t_token\<close> entry; and when none of the
  later calls includes the trade token, the entry is the very one added by the first call.
\<close>

theorem build_req_headers_shared_t_token:
  "(\<exists>w. map_of (headers (build_many env cs (snd (build_req_headers env True tm zv s)))) ''t_token''
        = Some w) \<and>
   map_of (headers (build_many env (map (\<lambda>(a, b). (False, a, b)) ds)
                      (snd (build_req_headers env True tm zv s)))) ''t_token''
     = Some (trade_token s)"
proof
  have first: "map_of (headers (snd (build_req_headers env True tm zv s))) ''t_token''
      = Some (trade_token s)"
    by (simp add: build_req_headers_t_token)
  from build_many_keeps_t_token [OF first]
  show "\<exists>w. map_of (headers (build_many env cs (snd (build_req_headers env True tm zv s)))) ''t_token''
        = Some w" .
  have "\<forall>c \<in> set (map (\<lambda>(a, b). (False, a, b)) ds). \<not> fst c"
    by auto
  from build_many_without_trade_token
         [OF this, of env "snd (build_req_headers env True tm zv s)"] first
  show "map_of (headers (build_many env (map (\<lambda>(a, b). (False, a, b)) ds)
                      (snd (build_req_headers env True tm zv s)))) ''t_token''
     = Some (trade_token s)"
    by simp
qed

subsection \<open>Screener\<close>

lemma run_screener_sent:
  "sent (snd (run_screener env region price_lte price_gte pct_chg_gte pct_chg_lte sort_arg
                sort_dir vol_lte vol_gte s)) =
     sent s @ [\<lparr>meth = POST, url = endpoints_screener, params = None,
       json = Some (PDict
         [(''fetch'', PInt 200),
          (''rules'', PDict (screener_rules env price_lte price_gte pct_chg_gte pct_chg_lte
                               vol_lte vol_gte)),
          (''sort'', PDict ((if sort_dir = PNone then dict_set ''desc'' (PStr ''true'') else id)
                      (if sort_arg = PNone
                       then dict_set ''rule'' (PStr ''wlas.screener.rule.price'') [] else []))),
          (''attach'', PDict [(''hkexPrivilege'', PStr ''true'')])]),
       hdrs = None, req_timeout = timeout s\<rparr>]"
  by (simp add: run_screener_def snd_bnd_lift snd_send Let_def)

lemma screener_rules_price:
  "price_lte \<noteq> PNone \<Longrightarrow> price_gte \<noteq> PNone \<Longrightarrow>
   map_of (screener_rules env price_lte price_gte pct_chg_gte pct_chg_lte vol_lte vol_gte)
     ''wlas.screener.rule.price''
   = Some (PStr (''gte='' @ py_str env price_lte @ ''&lte='' @ py_str env price_gte))"
  by (simp add: screener_rules_def Let_def update_conv')

lemma screener_rules_volume:
  "vol_lte \<noteq> PNone \<Longrightarrow> vol_gte \<noteq> PNone \<Longrightarrow>
   map_of (screener_rules env price_lte price_gte pct_chg_gte pct_chg_lte vol_lte vol_gte)
     ''wlas.screener.rule.volume''
   = Some (PStr (''gte='' @ py_str env vol_lte @ ''&lte='' @ py_str env vol_gte))"
  by (simp add: screener_rules_def Let_def update_conv')

lemma screener_rules_changeRatio:
  "pct_chg_lte \<noteq> PNone \<Longrightarrow> pct_chg_gte \<noteq> PNone \<Longrightarrow>
   map_of (screener_rules env price_lte price_gte pct_chg_gte pct_chg_lte vol_lte vol_gte)
     ''wlas.screener.rule.changeRatio''
   = Some (PStr (''gte='' @ py_str env pct_chg_lte @ ''&lte='' @ py_str env pct_chg_gte))"
  by (simp add: screener_rules_def Let_def update_conv')

text \<open>
  C3. Whenever \<^verbatim>\<open>run_screener\<close> is given both bounds of a pair, the rule string of the
  payload it posts has them swapped relative to their names: the value of the \<^verbatim>\<open>*_lte\<close>
  argument follows \<^verbatim>\<open>gte=\<close> and the value of the \<^verbatim>\<open>*_gte\<close> argument follows
  \<^verbatim>\<open>&lte=\<close>, for the price, the volume and the change ratio.
\<close>

theorem run_screener_bounds_swapped:
  "\<exists>rq jd rules.
     sent (snd (run_screener env region price_lte price_gte pct_chg_gte pct_chg_lte sort_arg
                  sort_dir vol_lte vol_gte s)) = sent s @ [rq]
     \<and> json rq = Some (PDict jd) \<and> map_of jd ''rules'' = Some (PDict rules)
     \<and> (price_lte \<noteq> PNone \<and> price_gte \<noteq> PNone \<longrightarrow>
          map_of rules ''wlas.screener.rule.price''
            = Some (PStr (''gte='' @ py_str env price_lte @ ''&lte='' @ py_str env price_gte)))
     \<and> (vol_lte \<noteq> PNone \<and> vol_gte \<noteq> PNone \<longrightarrow>
          map_of rules ''wlas.screener.rule.volume''
            = Some (PStr (''gte='' @ py_str env vol_lte @ ''&lte='' @ py_str env vol_gte)))
     \<and> (pct_chg_lte \<noteq> PNone \<and> pct_chg_gte \<noteq> PNone \<longrightarrow>
          map_of rules ''wlas.screener.rule.changeRatio''
            = Some (PStr (''gte='' @ py_str env pct_chg_lte @ ''&lte='' @ py_str env pct_chg_gte)))"
  apply (simp only: run_screener_sent)
  apply (intro exI conjI impI)
       apply (rule refl)
      apply (simp only: request.simps)
     apply (simp only: map_of.simps fst_conv snd_conv)
     apply simp
    apply (erule conjE, erule (1) screener_rules_price)
   apply (erule conjE, erule (1) screener_rules_volume)
  apply (erule conjE, erule (1) screener_rules_changeRatio)
  done

theorem run_screener_bounds_swapped_witness:
  "\<exists>rq jd rules.
     sent (snd (run_screener (example_env (answering (PDict []))) PNone (PInt 1) (PInt 5)
                  (PInt 2) (PInt 3) PNone PNone (PInt 100) (PInt 900) (init (PStr ''d'')))) = [rq]
     \<and> json rq = Some (PDict jd) \<and> map_of jd ''rules'' = Some (PDict rules)
     \<and> map_of rules ''wlas.screener.rule.price'' = Some (PStr ''gte=1&lte=5'')
     \<and> map_of rules ''wlas.screener.rule.volume'' = Some (PStr ''gte=100&lte=900'')
     \<and> map_of rules ''wlas.screener.rule.changeRatio'' = Some (PStr ''gte=3&lte=2'')"
  using run_screener_bounds_swapped [of "example_env (answering (PDict []))" PNone "PInt 1"
          "PInt 5" "PInt 2" "PInt 3" PNone PNone "PInt 100" "PInt 900" "init (PStr ''d'')"]
  by (simp add: example_env_sel init_def show_int_def show_nat.simps)

subsection \<open>Ticker lookup\<close>

text \<open>
  C4. The docstring of \<^verbatim>\<open>get_ticker\<close> promises the ticker id of an exact match and the
  first item only when there is none. The method tells the two cases apart by comparing
  \<^verbatim>\<open>ticker_id\<close> with its initial value \<open>0\<close>, so an exact match whose ticker id is \<open>0\<close> is
  taken for no match: for the symbol \<^verbatim>\<open>A\<close> and a response whose second item matches
  exactly with id \<open>0\<close>, the method returns the id \<open>5\<close> of the first item.
\<close>

theorem get_ticker_zero_id_falls_back:
  "fst (get_ticker (example_env (answering ticker_response)) (PStr ''A'') (init (PStr ''d'')))
     = Inr (PInt 5)"
  by (simp add: get_ticker_def bnd_build bnd_get bnd_lift ret_apply lift_apply throw_apply Let_def
        bindE_def example_env_sel answering_def response_json_def
        ticker_response_def key_equals_def list_index_def)

subsection \<open>Modifying an order without the order\<close>

text \<open>
  C10. A call of \<^verbatim>\<open>modify_order\<close> with \<^verbatim>\<open>order=None\<close> and a true \<^verbatim>\<open>order_id\<close> passes the
  check \<^verbatim>\<open>Must provide an order or order_id\<close>. If one of \<^verbatim>\<open>action\<close>, \<^verbatim>\<open>price\<close>,
  \<^verbatim>\<open>orderType\<close>, \<^verbatim>\<open>enforce\<close>, \<^verbatim>\<open>quant\<close> is false (as their defaults are), or
  \<^verbatim>\<open>outsideRegularTradingHour\<close> is not a boolean, the call raises before any HTTP request
  is sent; when \<^verbatim>\<open>action\<close> is the false one (\<^verbatim>\<open>None\<close>, the default), the exception is the
  \<^verbatim>\<open>TypeError\<close> of \<^verbatim>\<open>order['action']\<close> on \<^verbatim>\<open>None\<close>.
\<close>

theorem modify_order_without_order:
  assumes "truthy env order_id"
    and "\<not> truthy env action \<or> \<not> truthy env price \<or> \<not> truthy env orderType
         \<or> (\<forall>b. outsideRegularTradingHour \<noteq> PBool b) \<or> \<not> truthy env enforce
         \<or> \<not> truthy env quant"
  shows "(\<exists>e. fst (modify_order env PNone order_id stock tId price action orderType enforce quant
                outsideRegularTradingHour s) = Inl e)
       \<and> sent (snd (modify_order env PNone order_id stock tId price action orderType enforce
                quant outsideRegularTradingHour s)) = sent s
       \<and> (\<not> truthy env action \<longrightarrow>
            fst (modify_order env PNone order_id stock tId price action orderType enforce quant
                outsideRegularTradingHour s) = Inl TypeError)"
proof -
  have o: "\<forall>b. outsideRegularTradingHour \<noteq> PBool b \<Longrightarrow>
           (case outsideRegularTradingHour of PBool b \<Rightarrow> Inr (PBool b)
            | _ \<Rightarrow> getitem PNone ''outsideRegularTradingHour'')
             = (Inl TypeError :: exn + 'a pyval)"
    by (cases outsideRegularTradingHour) auto
  note rules = modify_order_def assms(1) bnd_build or_else_def bnd_lift bindE_def sent_build
  from assms(2) show ?thesis
  proof (elim disjE)
    assume "\<not> truthy env action"
    then show ?thesis by (simp add: rules)
  next
    assume "\<not> truthy env price"
    then show ?thesis by (simp add: rules split: sum.split)
  next
    assume "\<not> truthy env orderType"
    then show ?thesis by (simp add: rules split: sum.split)
  next
    assume nb: "\<forall>b. outsideRegularTradingHour \<noteq> PBool b"
    show ?thesis by (simp add: rules o [OF nb] split: sum.split)
  next
    assume "\<not> truthy env enforce"
    then show ?thesis by (simp add: rules split: sum.split)
  next
    assume "\<not> truthy env quant"
    then show ?thesis by (simp add: rules split: sum.split)
  qed
qed

theorem modify_order_without_order_witness:
  "truthy (example_env (answering PNone)) (PInt 12)
   \<and> fst (modify_order (example_env (answering PNone)) PNone (PInt 12) PNone PNone (PInt 0) PNone
            PNone PNone (PInt 0) PNone (init (PStr ''d''))) = Inl TypeError
   \<and> sent (snd (modify_order (example_env (answering PNone)) PNone (PInt 12) PNone PNone (PInt 0)
            PNone PNone PNone (PInt 0) PNone (init (PStr ''d'')))) = []"
  using modify_order_without_order [of "example_env (answering PNone)" "PInt 12" PNone "PInt 0"
          PNone PNone PNone "PInt 0" PNone PNone "init (PStr ''d'')"]
  by (simp add: init_def)

subsection \<open>Placing an order\<close>

lemma get_ticker_state:
  "snd (get_ticker env stock s) =
     s\<lparr>headers := headers (snd (build_req_headers env False False True s)),
       sent := sent s @ lookup_requests env stock s\<rparr>"
  by (cases stock)
     (auto simp: get_ticker_def bnd_def lift_def ret_def throw_def get_with_headers_def send_def
        build_req_headers_def Let_def lookup_requests_def
        split: sum.splits prod.splits)

lemma lookup_requests_GET: "g \<in> set (lookup_requests env stock s) \<Longrightarrow> meth g = GET"
  by (cases stock) (auto simp: lookup_requests_def split: if_splits)

lemma length_lookup_requests:
  "length (lookup_requests env stock s) = (if \<exists>st. stock = PStr st \<and> st \<noteq> [] then 1 else 0)"
  by (cases stock) (auto simp: lookup_requests_def)

lemma resolve_tId_state:
  "snd (resolve_tId env stock tId s) =
     (if tId \<noteq> PNone \<or> stock = PNone then s
      else s\<lparr>headers := headers (snd (build_req_headers env False False True s)),
             sent := sent s @ lookup_requests env stock s\<rparr>)"
  by (simp add: resolve_tId_def ret_apply throw_apply get_ticker_state)

lemma sent_resolve_tId:
  "sent (snd (resolve_tId env stock tId s)) = sent s @ resolve_requests env stock tId s"
  by (simp add: resolve_tId_state resolve_requests_def)

lemma resolve_requests_GET: "g \<in> set (resolve_requests env stock tId s) \<Longrightarrow> meth g = GET"
  by (auto simp: resolve_requests_def lookup_requests_GET split: if_splits)

lemma resolve_tId_given: "tId \<noteq> PNone \<Longrightarrow> resolve_tId env stock tId s = (Inr tId, s)"
  by (simp add: resolve_tId_def ret_apply)

lemma place_order_run:
  "place_order env stock tId price action orderType enforce quant outsideRegularTradingHour
       stpPrice trial_value trial_type s =
     (case resolve_tId env stock tId s of
        (Inl e, s0) \<Rightarrow> (Inl e, s0)
      | (Inr tid, s0) \<Rightarrow>
          (let s1 = snd (build_req_headers env True True True s0) in
           case place_order_data env tid price action orderType enforce quant
                  outsideRegularTradingHour stpPrice trial_value trial_type of
             Inl e \<Rightarrow> (Inl e, s1)
           | Inr d \<Rightarrow>
               (let rq = \<lparr>meth = POST, url = endpoints_place_orders env (account_id s1),
                           params = None, json = Some (PDict d), hdrs = Some (headers s1),
                           req_timeout = timeout s1\<rparr>;
                    s2 = s1\<lparr>sent := sent s1 @ [rq]\<rparr>
                in case http env (length (sent s1)) rq of
                     Inl e \<Rightarrow> (Inl e, s2)
                   | Inr response \<Rightarrow> (response_json response, s2))))"
  apply (simp only: place_order_def)
  apply (subst bnd_def)
  apply (cases "resolve_tId env stock tId s")
  apply (simp add: bnd_build bnd_lift bnd_post lift_apply Let_def split: sum.split)
  done

lemma place_order_data_keys:
  assumes "place_order_data env tid price action orderType enforce quant
             outsideRegularTradingHour stpPrice trial_value trial_type = Inr d"
  shows "(orderType = PStr ''LMT'' \<longrightarrow>
            (\<exists>p. py_float env price = Inr p \<and> map_of d ''lmtPrice'' = Some (PFloat p))
            \<and> map_of d ''auxPrice'' = None)
       \<and> (orderType = PStr ''STP'' \<longrightarrow>
            (\<exists>a. py_float env stpPrice = Inr a \<and> map_of d ''auxPrice'' = Some (PFloat a))
            \<and> map_of d ''lmtPrice'' = None)
       \<and> (orderType = PStr ''STP LMT'' \<longrightarrow>
            (\<exists>p. py_float env price = Inr p \<and> map_of d ''lmtPrice'' = Some (PFloat p))
            \<and> (\<exists>a. py_float env stpPrice = Inr a \<and> map_of d ''auxPrice'' = Some (PFloat a)))
       \<and> (orderType = PStr ''STP TRAIL'' \<longrightarrow>
            (\<exists>t. py_float env trial_value = Inr t
                 \<and> map_of d ''trailingStopStep'' = Some (PFloat t))
            \<and> map_of d ''trailingType'' = Some (PStr (py_str env trial_type)))
       \<and> (orderType = PStr ''MKT'' \<longrightarrow>
            map_of d ''lmtPrice'' = None \<and> map_of d ''auxPrice'' = None
            \<and> map_of d ''outsideRegularTradingHour'' = Some (PBool False))"
  using assms
  by (auto simp: place_order_data_def bindE_def Let_def update_conv' split: sum.splits)

lemma place_order_new_requests:
  assumes "rq \<in> set (drop (length (sent s))
             (sent (snd (place_order env stock tId price action orderType enforce quant
                outsideRegularTradingHour stpPrice trial_value trial_type s))))"
    and "meth rq = POST"
  shows "\<exists>tid d. json rq = Some (PDict d)
           \<and> place_order_data env tid price action orderType enforce quant
                outsideRegularTradingHour stpPrice trial_value trial_type = Inr d"
proof -
  obtain r0 s0 where res: "resolve_tId env stock tId s = (r0, s0)"
    by (cases "resolve_tId env stock tId s")
  have "s0 = snd (resolve_tId env stock tId s)" using res by simp
  then have s0: "sent s0 = sent s @ resolve_requests env stock tId s"
    by (simp only: sent_resolve_tId)
  have gs: "\<forall>g \<in> set (resolve_requests env stock tId s). meth g = GET"
    by (simp add: resolve_requests_GET)
  show ?thesis
  proof (cases r0)
    case (Inl e)
    with assms res s0 gs show ?thesis by (auto simp: place_order_run)
  next
    case (Inr tid)
    show ?thesis
    proof (cases "place_order_data env tid price action orderType enforce quant
                outsideRegularTradingHour stpPrice trial_value trial_type")
      case (Inl e)
      with assms res s0 gs Inr show ?thesis by (auto simp: place_order_run Let_def sent_build)
    next
      case d: (Inr d)
      with assms res s0 gs Inr show ?thesis
        by (auto simp: place_order_run Let_def sent_build split: sum.splits)
    qed
  qed
qed

lemma place_order_state_erased:
  "(snd (place_order env stock tId price action orderType enforce quant
           outsideRegularTradingHour stpPrice trial_value trial_type s))\<lparr>sent := []\<rparr> =
     (case fst (resolve_tId env stock tId s) of
        Inl e \<Rightarrow> snd (resolve_tId env stock tId s)
      | Inr tid \<Rightarrow> snd (build_req_headers env True True True (snd (resolve_tId env stock tId s))))
     \<lparr>sent := []\<rparr>"
proof -
  obtain r0 s0 where res: "resolve_tId env stock tId s = (r0, s0)"
    by (cases "resolve_tId env stock tId s")
  show ?thesis
    by (cases r0) (simp_all add: place_order_run res Let_def split: sum.split)
qed

lemma session_unchanged_resolve:
  "session_unchanged s (snd (resolve_tId env stock tId s))"
  by (simp add: resolve_tId_state session_unchanged_def)

lemma session_unchanged_build:
  "session_unchanged s s0 \<Longrightarrow> session_unchanged s (snd (build_req_headers env a b c s0))"
  by (simp add: build_req_headers_def Let_def session_unchanged_def)

lemma session_unchanged_erase:
  "session_unchanged s (s'\<lparr>sent := []\<rparr>) = session_unchanged s s'"
  by (simp add: session_unchanged_def)

lemma place_order_session:
  "session_unchanged s (snd (place_order env stock tId price action orderType enforce quant
           outsideRegularTradingHour stpPrice trial_value trial_type s))"
proof -
  have "session_unchanged s
          ((snd (place_order env stock tId price action orderType enforce quant
           outsideRegularTradingHour stpPrice trial_value trial_type s))\<lparr>sent := []\<rparr>)"
    unfolding place_order_state_erased
    by (cases "fst (resolve_tId env stock tId s)")
       (simp_all add: session_unchanged_erase session_unchanged_resolve session_unchanged_build)
  then show ?thesis by (simp only: session_unchanged_erase)
qed

lemma place_order_resolved:
  assumes "resolve_tId env stock tId s = (Inr tid, s0)"
    and "place_order_data env tid price action orderType enforce quant
           outsideRegularTradingHour stpPrice trial_value trial_type = Inr d"
  shows "sent (snd (place_order env stock tId price action orderType enforce quant
           outsideRegularTradingHour stpPrice trial_value trial_type s)) =
         sent s0 @ [place_order_request env s0 d]"
  using assms
  by (simp add: place_order_run Let_def build_req_headers_def place_order_request_def
        split: sum.split)

lemma place_order_unresolved:
  assumes "resolve_tId env stock tId s = (Inl e, s0)"
  shows "place_order env stock tId price action orderType enforce quant
           outsideRegularTradingHour stpPrice trial_value trial_type s = (Inl e, s0)"
  using assms by (simp add: place_order_run)

lemma place_order_no_payload:
  assumes "resolve_tId env stock tId s = (Inr tid, s0)"
    and "place_order_data env tid price action orderType enforce quant
           outsideRegularTradingHour stpPrice trial_value trial_type = Inl e"
  shows "fst (place_order env stock tId price action orderType enforce quant
           outsideRegularTradingHour stpPrice trial_value trial_type s) = Inl e
       \<and> sent (snd (place_order env stock tId price action orderType enforce quant
           outsideRegularTradingHour stpPrice trial_value trial_type s)) = sent s0"
  using assms by (simp add: place_order_run Let_def build_req_headers_def)

lemma place_order_data_MKT:
  "py_int env quant = Inr q \<Longrightarrow>
   place_order_data env tid price action (PStr ''MKT'') enforce quant orth stpPrice
       trial_value trial_type =
     Inr [(''action'', action), (''comboType'', PStr ''NORMAL''),
          (''orderType'', PStr ''MKT''), (''outsideRegularTradingHour'', PBool False),
          (''quantity'', PInt q), (''serialId'', PStr (uuid4 env 0)), (''tickerId'', tid),
          (''timeInForce'', enforce)]"
  by (simp add: place_order_data_def bindE_def)

lemma place_order_data_LMT:
  "py_int env quant = Inr q \<Longrightarrow> py_float env price = Inr p \<Longrightarrow>
   place_order_data env tid price action (PStr ''LMT'') enforce quant orth stpPrice
       trial_value trial_type =
     Inr [(''action'', action), (''comboType'', PStr ''NORMAL''),
          (''orderType'', PStr ''LMT''), (''outsideRegularTradingHour'', orth),
          (''quantity'', PInt q), (''serialId'', PStr (uuid4 env 0)), (''tickerId'', tid),
          (''timeInForce'', enforce), (''lmtPrice'', PFloat p)]"
  by (simp add: place_order_data_def bindE_def)

lemma place_order_data_STP:
  "py_int env quant = Inr q \<Longrightarrow> py_float env stpPrice = Inr a \<Longrightarrow>
   place_order_data env tid price action (PStr ''STP'') enforce quant orth stpPrice
       trial_value trial_type =
     Inr [(''action'', action), (''comboType'', PStr ''NORMAL''),
          (''orderType'', PStr ''STP''), (''outsideRegularTradingHour'', orth),
          (''quantity'', PInt q), (''serialId'', PStr (uuid4 env 0)), (''tickerId'', tid),
          (''timeInForce'', enforce), (''auxPrice'', PFloat a)]"
  by (simp add: place_order_data_def bindE_def)

lemma place_order_data_STP_LMT:
  "py_int env quant = Inr q \<Longrightarrow> py_float env price = Inr p \<Longrightarrow>
   py_float env stpPrice = Inr a \<Longrightarrow>
   place_order_data env tid price action (PStr ''STP LMT'') enforce quant orth stpPrice
       trial_value trial_type =
     Inr [(''action'', action), (''comboType'', PStr ''NORMAL''),
          (''orderType'', PStr ''STP LMT''), (''outsideRegularTradingHour'', orth),
          (''quantity'', PInt q), (''serialId'', PStr (uuid4 env 0)), (''tickerId'', tid),
          (''timeInForce'', enforce), (''lmtPrice'', PFloat p), (''auxPrice'', PFloat a)]"
  by (simp add: place_order_data_def bindE_def)

lemma place_order_data_STP_TRAIL:
  "py_int env quant = Inr q \<Longrightarrow> py_float env trial_value = Inr t \<Longrightarrow>
   place_order_data env tid price action (PStr ''STP TRAIL'') enforce quant orth stpPrice
       trial_value trial_type =
     Inr [(''action'', action), (''comboType'', PStr ''NORMAL''),
          (''orderType'', PStr ''STP TRAIL''), (''outsideRegularTradingHour'', orth),
          (''quantity'', PInt q), (''serialId'', PStr (uuid4 env 0)), (''tickerId'', tid),
          (''timeInForce'', enforce), (''trailingStopStep'', PFloat t),
          (''trailingType'', PStr (py_str env trial_type))]"
  by (simp add: place_order_data_def bindE_def)

text \<open>
  C7. \<^verbatim>\<open>place_order\<close> builds the payload with price fields that follow the order type.
  Once the ticker id is resolved (to the id given, or by the lookup of the symbol) and
  \<^verbatim>\<open>int(quant)\<close> is defined, the call sends, after the requests of the lookup, exactly one
  POST, and its payload is the dictionary written out below: for \<^verbatim>\<open>MKT\<close> the common fields
  with no price field and \<^verbatim>\<open>outsideRegularTradingHour\<close> replaced by \<^verbatim>\<open>False\<close>; for
  \<^verbatim>\<open>LMT\<close> the common fields and \<^verbatim>\<open>lmtPrice\<close>, the float of the price; for \<^verbatim>\<open>STP\<close> the
  common fields and \<^verbatim>\<open>auxPrice\<close>, the float of the stop price; for \<^verbatim>\<open>STP LMT\<close> both; for
  \<^verbatim>\<open>STP TRAIL\<close> the common fields, \<^verbatim>\<open>trailingStopStep\<close> and \<^verbatim>\<open>trailingType\<close> (for the
  last four whenever the floats of the prices used are defined). Moreover every POST that any
  call issues carries a payload whose price fields follow the order type in this way; a ticker
  id that is given is the resolved one, with no lookup. Nothing of the order is kept by the
  client: every attribute other than the header dictionary is unchanged, and the state after
  the call (the log of requests apart) is the same whatever the price, action, order type,
  time in force, quantity, extended-hours flag, stop price and trailing values.
\<close>

theorem place_order_payload:
  "(\<forall>tid s0 q.
      resolve_tId env stock tId s = (Inr tid, s0) \<longrightarrow> py_int env quant = Inr q \<longrightarrow>
        sent s0 = sent s @ resolve_requests env stock tId s
      \<and> (orderType = PStr ''MKT'' \<longrightarrow>
          sent (snd (place_order env stock tId price action orderType enforce quant
                     outsideRegularTradingHour stpPrice trial_value trial_type s)) =
          sent s0 @ [place_order_request env s0
             [(''action'', action), (''comboType'', PStr ''NORMAL''),
              (''orderType'', PStr ''MKT''), (''outsideRegularTradingHour'', PBool False),
              (''quantity'', PInt q), (''serialId'', PStr (uuid4 env 0)), (''tickerId'', tid),
              (''timeInForce'', enforce)]])
      \<and> (orderType = PStr ''LMT'' \<longrightarrow> (\<forall>p. py_float env price = Inr p \<longrightarrow>
          sent (snd (place_order env stock tId price action orderType enforce quant
                     outsideRegularTradingHour stpPrice trial_value trial_type s)) =
          sent s0 @ [place_order_request env s0
             [(''action'', action), (''comboType'', PStr ''NORMAL''),
              (''orderType'', PStr ''LMT''), (''outsideRegularTradingHour'', outsideRegularTradingHour),
              (''quantity'', PInt q), (''serialId'', PStr (uuid4 env 0)), (''tickerId'', tid),
              (''timeInForce'', enforce), (''lmtPrice'', PFloat p)]]))
      \<and> (orderType = PStr ''STP'' \<longrightarrow> (\<forall>a. py_float env stpPrice = Inr a \<longrightarrow>
          sent (snd (place_order env stock tId price action orderType enforce quant
                     outsideRegularTradingHour stpPrice trial_value trial_type s)) =
          sent s0 @ [place_order_request env s0
             [(''action'', action), (''comboType'', PStr ''NORMAL''),
              (''orderType'', PStr ''STP''), (''outsideRegularTradingHour'', outsideRegularTradingHour),
              (''quantity'', PInt q), (''serialId'', PStr (uuid4 env 0)), (''tickerId'', tid),
              (''timeInForce'', enforce), (''auxPrice'', PFloat a)]]))
      \<and> (orderType = PStr ''STP LMT'' \<longrightarrow> 
          (\<forall>p a. py_float env price = Inr p \<longrightarrow> py_float env stpPrice = Inr a \<longrightarrow>
          sent (snd (place_order env stock tId price action orderType enforce quant
                     outsideRegularTradingHour stpPrice trial_value trial_type s)) =
          sent s0 @ [place_order_request env s0
             [(''action'', action), (''comboType'', PStr ''NORMAL''),
              (''orderType'', PStr ''STP LMT''), (''outsideRegularTradingHour'', outsideRegularTradingHour),
              (''quantity'', PInt q), (''serialId'', PStr (uuid4 env 0)), (''tickerId'', tid),
              (''timeInForce'', enforce),
              (''lmtPrice'', PFloat p), (''auxPrice'', PFloat a)]]))
      \<and> (orderType = PStr ''STP TRAIL'' \<longrightarrow> (\<forall>t. py_float env trial_value = Inr t \<longrightarrow>
          sent (snd (place_order env stock tId price action orderType enforce quant
                     outsideRegularTradingHour stpPrice trial_value trial_type s)) =
          sent s0 @ [place_order_request env s0
             [(''action'', action), (''comboType'', PStr ''NORMAL''),
              (''orderType'', PStr ''STP TRAIL''), (''outsideRegularTradingHour'', outsideRegularTradingHour),
              (''quantity'', PInt q), (''serialId'', PStr (uuid4 env 0)), (''tickerId'', tid),
              (''timeInForce'', enforce),
              (''trailingStopStep'', PFloat t),
              (''trailingType'', PStr (py_str env trial_type))]])))
   \<and> (\<forall>rq \<in> set (drop (length (sent s))
       (sent (snd (place_order env stock tId price action orderType enforce quant
                outsideRegularTradingHour stpPrice trial_value trial_type s)))).
      meth rq = POST \<longrightarrow>
      (\<exists>d. json rq = Some (PDict d)
        \<and> (orderType = PStr ''LMT'' \<longrightarrow>
             (\<exists>p. py_float env price = Inr p \<and> map_of d ''lmtPrice'' = Some (PFloat p))
             \<and> map_of d ''auxPrice'' = None)
        \<and> (orderType = PStr ''STP'' \<longrightarrow>
             (\<exists>a. py_float env stpPrice = Inr a \<and> map_of d ''auxPrice'' = Some (PFloat a))
             \<and> map_of d ''lmtPrice'' = None)
        \<and> (orderType = PStr ''STP LMT'' \<longrightarrow>
             (\<exists>p. py_float env price = Inr p \<and> map_of d ''lmtPrice'' = Some (PFloat p))
             \<and> (\<exists>a. py_float env stpPrice = Inr a \<and> map_of d ''auxPrice'' = Some (PFloat a)))
        \<and> (orderType = PStr ''STP TRAIL'' \<longrightarrow>
             (\<exists>t. py_float env trial_value = Inr t
                  \<and> map_of d ''trailingStopStep'' = Some (PFloat t))
             \<and> map_of d ''trailingType'' = Some (PStr (py_str env trial_type)))
        \<and> (orderType = PStr ''MKT'' \<longrightarrow>
             map_of d ''lmtPrice'' = None \<and> map_of d ''auxPrice'' = None
             \<and> map_of d ''outsideRegularTradingHour'' = Some (PBool False))))
   \<and> (tId \<noteq> PNone \<longrightarrow> resolve_tId env stock tId s = (Inr tId, s))
   \<and> session_unchanged s
        (snd (place_order env stock tId price action orderType enforce quant
                outsideRegularTradingHour stpPrice trial_value trial_type s))
   \<and> (snd (place_order env stock tId price action orderType enforce quant
              outsideRegularTradingHour stpPrice trial_value trial_type s))\<lparr>sent := []\<rparr>
      = (snd (place_order env stock tId price2 action2 orderType2 enforce2 quant2
              outsideRegularTradingHour2 stpPrice2 trial_value2 trial_type2 s))\<lparr>sent := []\<rparr>"
  apply (intro conjI allI impI ballI)
  subgoal premises prems for tid s0 q
  proof -
    have "s0 = snd (resolve_tId env stock tId s)" using prems(1) by simp
    then show ?thesis by (simp only: sent_resolve_tId)
  qed
  subgoal premises prems for tid s0 q
    by (simp only: prems(3))
       (rule place_order_resolved [OF prems(1) place_order_data_MKT [OF prems(2)]])
  subgoal premises prems for tid s0 q p
    by (simp only: prems(3))
       (rule place_order_resolved [OF prems(1) place_order_data_LMT [OF prems(2) prems(4)]])
  subgoal premises prems for tid s0 q a
    by (simp only: prems(3))
       (rule place_order_resolved [OF prems(1) place_order_data_STP [OF prems(2) prems(4)]])
  subgoal premises prems for tid s0 q p a
    by (simp only: prems(3))
       (rule place_order_resolved
          [OF prems(1) place_order_data_STP_LMT [OF prems(2) prems(4) prems(5)]])
  subgoal premises prems for tid s0 q t
    by (simp only: prems(3))
       (rule place_order_resolved
          [OF prems(1) place_order_data_STP_TRAIL [OF prems(2) prems(4)]])
  subgoal premises prems for rq
  proof -
    from place_order_new_requests [OF prems]
    obtain tid d where j: "json rq = Some (PDict d)"
      and d: "place_order_data env tid price action orderType enforce quant
                outsideRegularTradingHour stpPrice trial_value trial_type = Inr d"
      by blast
    show ?thesis
      by (rule exI [of _ d], rule conjI, rule j, rule place_order_data_keys [OF d])
  qed
  subgoal by (rule resolve_tId_given)
  subgoal by (rule place_order_session)
  subgoal by (simp only: place_order_state_erased)
  done

theorem place_order_payload_witness:
  "sent (snd (place_order (example_env (answering (PDict []))) PNone (PInt 7) (PInt 10)
                (PStr ''BUY'') (PStr ''MKT'') (PStr ''GTC'') (PInt 3) (PBool True) (PInt 9)
                (PInt 2) (PStr ''DOLLAR'') (init (PStr ''d'')))) =
     [place_order_request (example_env (answering (PDict []))) (init (PStr ''d''))
        [(''action'', PStr ''BUY''), (''comboType'', PStr ''NORMAL''),
         (''orderType'', PStr ''MKT''), (''outsideRegularTradingHour'', PBool False),
         (''quantity'', PInt 3), (''serialId'', PStr ''uuid-0''), (''tickerId'', PInt 7),
         (''timeInForce'', PStr ''GTC'')]]
   \<and> sent (snd (place_order (example_env (answering (PDict []))) PNone (PInt 7) (PInt 10)
                (PStr ''BUY'') (PStr ''LMT'') (PStr ''GTC'') (PInt 3) (PBool True) (PInt 9)
                (PInt 2) (PStr ''DOLLAR'') (init (PStr ''d'')))) =
     [place_order_request (example_env (answering (PDict []))) (init (PStr ''d''))
        [(''action'', PStr ''BUY''), (''comboType'', PStr ''NORMAL''),
         (''orderType'', PStr ''LMT''), (''outsideRegularTradingHour'', PBool True),
         (''quantity'', PInt 3), (''serialId'', PStr ''uuid-0''), (''tickerId'', PInt 7),
         (''timeInForce'', PStr ''GTC''), (''lmtPrice'', PFloat 10)]]
   \<and> sent (snd (place_order (example_env (answering (PDict []))) PNone (PInt 7) (PInt 10)
                (PStr ''BUY'') (PStr ''STP'') (PStr ''GTC'') (PInt 3) (PBool True) (PInt 9)
                (PInt 2) (PStr ''DOLLAR'') (init (PStr ''d'')))) =
     [place_order_request (example_env (answering (PDict []))) (init (PStr ''d''))
        [(''action'', PStr ''BUY''), (''comboType'', PStr ''NORMAL''),
         (''orderType'', PStr ''STP''), (''outsideRegularTradingHour'', PBool True),
         (''quantity'', PInt 3), (''serialId'', PStr ''uuid-0''), (''tickerId'', PInt 7),
         (''timeInForce'', PStr ''GTC''), (''auxPrice'', PFloat 9)]]
   \<and> sent (snd (place_order (example_env (answering (PDict []))) PNone (PInt 7) (PInt 10)
                (PStr ''BUY'') (PStr ''STP LMT'') (PStr ''GTC'') (PInt 3) (PBool True)
                (PInt 9) (PInt 2) (PStr ''DOLLAR'') (init (PStr ''d'')))) =
     [place_order_request (example_env (answering (PDict []))) (init (PStr ''d''))
        [(''action'', PStr ''BUY''), (''comboType'', PStr ''NORMAL''),
         (''orderType'', PStr ''STP LMT''), (''outsideRegularTradingHour'', PBool True),
         (''quantity'', PInt 3), (''serialId'', PStr ''uuid-0''), (''tickerId'', PInt 7),
         (''timeInForce'', PStr ''GTC''), (''lmtPrice'', PFloat 10),
         (''auxPrice'', PFloat 9)]]
   \<and> sent (snd (place_order (example_env (answering (PDict []))) PNone (PInt 7) (PInt 10)
                (PStr ''BUY'') (PStr ''STP TRAIL'') (PStr ''GTC'') (PInt 3) (PBool True)
                (PInt 9) (PInt 2) (PStr ''DOLLAR'') (init (PStr ''d'')))) =
     [place_order_request (example_env (answering (PDict []))) (init (PStr ''d''))
        [(''action'', PStr ''BUY''), (''comboType'', PStr ''NORMAL''),
         (''orderType'', PStr ''STP TRAIL''), (''outsideRegularTradingHour'', PBool True),
         (''quantity'', PInt 3), (''serialId'', PStr ''uuid-0''), (''tickerId'', PInt 7),
         (''timeInForce'', PStr ''GTC''), (''trailingStopStep'', PFloat 2),
         (''trailingType'', PStr ''DOLLAR'')]]"
proof -
  let ?E = "example_env (answering (PDict []))"
  have r: "resolve_tId ?E PNone (PInt 7) (init (PStr ''d'')) = (Inr (PInt 7), init (PStr ''d''))"
    by (simp add: resolve_tId_given)
  have q: "py_int ?E (PInt 3) = Inr 3" by (simp add: example_env_sel)
  have p: "py_float ?E (PInt 10) = Inr 10" by (simp add: example_env_sel)
  have a: "py_float ?E (PInt 9) = Inr 9" by (simp add: example_env_sel)
  have t: "py_float ?E (PInt 2) = Inr 2" by (simp add: example_env_sel)
  have u: "uuid4 ?E 0 = ''uuid-0''" by (simp add: example_env_sel show_nat.simps)
  have y: "py_str ?E (PStr ''DOLLAR'') = ''DOLLAR''" by (simp add: example_env_sel)
  have e: "sent (init (PStr ''d'') :: int webull) = []" by (simp add: init_def)
  note T = place_order_payload [where env = ?E and stock = PNone and tId = "PInt 7"
      and price = "PInt 10" and action = "PStr ''BUY''" and enforce = "PStr ''GTC''"
      and quant = "PInt 3" and outsideRegularTradingHour = "PBool True"
      and stpPrice = "PInt 9" and trial_value = "PInt 2" and trial_type = "PStr ''DOLLAR''"
      and s = "init (PStr ''d'')", THEN conjunct1, rule_format, OF r q, THEN conjunct2]
  note m = T [THEN conjunct1, rule_format, OF refl]
  note l = T [THEN conjunct2, THEN conjunct1, rule_format, OF refl p]
  note s = T [THEN conjunct2, THEN conjunct2, THEN conjunct1, rule_format, OF refl a]
  note sl = T [THEN conjunct2, THEN conjunct2, THEN conjunct2, THEN conjunct1, rule_format,
      OF refl p a]
  note tr = T [THEN conjunct2, THEN conjunct2, THEN conjunct2, THEN conjunct2, rule_format,
      OF refl t]
  show ?thesis
    by (simp only: m l s sl tr e u y append_Nil simp_thms)
qed

subsection \<open>Refreshing the login\<close>

lemma bnd_lift_state:
  "bnd (\<lambda>s. lift (g s) s) f s = (case g s of Inl e \<Rightarrow> (Inl e, s) | Inr x \<Rightarrow> f x s)"
  by (cases "g s") (simp_all add: bnd_def lift_def)

lemma bnd_update: "bnd (\<lambda>s. (Inr (), upd s)) f s = f () (upd s)"
  by (simp add: bnd_def)

lemma contains_dict: "contains (PDict d) k = Inr (map_of d k \<noteq> None)"
  by (simp add: map_of_eq_None_iff)

lemma refresh_ok_dict:
  "refresh_ok (PDict d) = Inr True \<longleftrightarrow>
     (\<exists>a r t. map_of d ''accessToken'' = Some a \<and> a \<noteq> PStr []
        \<and> map_of d ''refreshToken'' = Some r \<and> r \<noteq> PStr []
        \<and> map_of d ''tokenExpireTime'' = Some t \<and> t \<noteq> PStr [])"
  by (cases "map_of d ''accessToken''"; cases "map_of d ''refreshToken''";
      cases "map_of d ''tokenExpireTime''")
     (simp_all add: refresh_ok_def bindE_def contains_dict del: contains.simps)

lemma refresh_ok_True_dict:
  assumes "refresh_ok result = Inr True"
  shows "\<exists>d. result = PDict d"
proof (cases result)
  case (PList xs)
  then show ?thesis using assms
    by (simp add: refresh_ok_def bindE_def split: if_splits)
next
  case (PStr x)
  then show ?thesis using assms
    by (simp add: refresh_ok_def bindE_def split: if_splits)
qed (use assms in \<open>simp_all add: refresh_ok_def bindE_def\<close>)

lemma refresh_login_run:
  assumes "refresh_token s = PStr rt"
    and "http env (length (sent s)) (refresh_request env s rt) = Inr resp"
    and "body resp = Some result"
  shows "refresh_login env save_token token_path s =
     (let s2 = (snd (build_req_headers env False False True s))
                 \<lparr>sent := sent s @ [refresh_request env s rt]\<rparr> in
      case refresh_ok result of
        Inl e \<Rightarrow> (Inl e, s2)
      | Inr ok \<Rightarrow>
          if ok then
            (case result of
               PDict d \<Rightarrow>
                 (let s3 = s2\<lparr>access_token := the (map_of d ''accessToken''),
                              refresh_token := the (map_of d ''refreshToken''),
                              token_expire := the (map_of d ''tokenExpireTime'')\<rparr>;
                      result' = PDict (AList.update ''uuid'' (uuid s) d)
                  in if save_token then
                       (case save_token_file env result' token_path s3 of
                          (Inl e, s4) \<Rightarrow> (Inl e, s4)
                        | (Inr u, s4) \<Rightarrow> (Inr result', s4))
                     else (Inr result', s3))
             | _ \<Rightarrow> (Inl TypeError, s2))
          else (Inr result, s2))"
proof -
  have b: "refresh_token (snd (build_req_headers env False False True s)) = PStr rt"
    "sent (snd (build_req_headers env False False True s)) = sent s"
    "timeout (snd (build_req_headers env False False True s)) = timeout s"
    "uuid (snd (build_req_headers env False False True s)) = uuid s"
    using assms(1) by (simp_all add: build_req_headers_def Let_def)
  show ?thesis
  proof (cases "refresh_ok result")
    case (Inl e)
    then show ?thesis using assms b
      by (simp add: refresh_login_def bnd_build bnd_lift_state bnd_post bnd_lift Let_def
            refresh_request_def response_json_def)
  next
    case (Inr ok)
    show ?thesis
    proof (cases ok)
      case False
      then show ?thesis using assms b Inr
        by (simp add: refresh_login_def bnd_build bnd_lift_state bnd_post bnd_lift Let_def
              refresh_request_def response_json_def ret_apply)
    next
      case True
      from Inr True have "refresh_ok result = Inr True" by simp
      from refresh_ok_True_dict [OF this] obtain d where d: "result = PDict d" by blast
      from Inr True d obtain a r t where k: "map_of d ''accessToken'' = Some a"
        "map_of d ''refreshToken'' = Some r" "map_of d ''tokenExpireTime'' = Some t"
        by (auto simp: refresh_ok_dict)
      show ?thesis using assms b Inr True d k
        by (simp add: refresh_login_def bnd_build bnd_lift_state bnd_post bnd_lift Let_def
              refresh_request_def response_json_def ret_apply bnd_update bnd_def [of "save_token_file _ _ _"]
              split: prod.split sum.split)
    qed
  qed
qed


subsection \<open>Bars\<close>

lemma list_index_nat:
  "list_index xs (int n) = Inr x \<longleftrightarrow> n < length xs \<and> x = xs ! n"
  by (auto simp: list_index_def)

lemma list_index_numeral:
  "list_index xs (numeral k) = Inr x \<longleftrightarrow> numeral k < length xs \<and> x = xs ! numeral k"
  using list_index_nat [of xs "numeral k" x] by simp

lemma list_index_0: "list_index xs 0 = Inr x \<longleftrightarrow> 0 < length xs \<and> x = xs ! 0"
  using list_index_nat [of xs 0 x] by simp

lemma list_index_1: "list_index xs 1 = Inr x \<longleftrightarrow> 1 < length xs \<and> x = xs ! 1"
  using list_index_nat [of xs 1 x] by simp

lemma bar_of_row_Inr:
  assumes "bar_of_row env row = Inr tb"
  shows "\<exists>r. row = PStr r \<and>
           (let cols = map null_to_zero (split_on CHR '','' r) in
            8 \<le> length cols
            \<and> py_int env (PStr (cols ! 0)) = Inr (fst tb)
            \<and> py_float env (PStr (cols ! 1)) = Inr (bar_open (snd tb))
            \<and> py_float env (PStr (cols ! 2)) = Inr (bar_close (snd tb))
            \<and> py_float env (PStr (cols ! 3)) = Inr (bar_high (snd tb))
            \<and> py_float env (PStr (cols ! 4)) = Inr (bar_low (snd tb))
            \<and> py_float env (PStr (cols ! 6)) = Inr (bar_volume (snd tb))
            \<and> py_float env (PStr (cols ! 7)) = Inr (bar_vwap (snd tb)))"
proof (cases row)
  case (PStr r)
  then show ?thesis using assms
    by (auto simp: bar_of_row_def bindE_def Let_def list_index_numeral list_index_0 list_index_1
          split: sum.splits if_splits)
qed (use assms in \<open>simp_all add: bar_of_row_def\<close>)

lemma bars_loop_Inr:
  "bars_loop env rows df = Inr df' \<Longrightarrow>
   \<exists>tbs. length tbs = length rows
     \<and> (\<forall>i < length rows. bar_of_row env (rows ! i) = Inr (tbs ! i))
     \<and> df' = foldl (\<lambda>d tb. AList.update (fst tb) (snd tb) d) df tbs"
proof (induction rows arbitrary: df)
  case Nil
  then show ?case by simp
next
  case (Cons row rows)
  from Cons.prems obtain tb where tb: "bar_of_row env row = Inr tb"
    and rest: "bars_loop env rows (AList.update (fst tb) (snd tb) df) = Inr df'"
    by (auto simp: bindE_def split: sum.splits)
  from Cons.IH [OF rest] obtain tbs where tbs: "length tbs = length rows"
    "\<forall>i < length rows. bar_of_row env (rows ! i) = Inr (tbs ! i)"
    "df' = foldl (\<lambda>d tb. AList.update (fst tb) (snd tb) d) (AList.update (fst tb) (snd tb) df) tbs"
    by blast
  show ?case
  proof (intro exI [of _ "tb # tbs"] conjI allI impI)
    show "length (tb # tbs) = length (row # rows)" using tbs(1) by simp
    show "df' = foldl (\<lambda>d tb. AList.update (fst tb) (snd tb) d) df (tb # tbs)"
      using tbs(3) by simp
    fix i assume "i < length (row # rows)"
    then show "bar_of_row env ((row # rows) ! i) = Inr ((tb # tbs) ! i)"
      using tb tbs(2) by (cases i) simp_all
  qed
qed

lemma update_fresh: "k \<notin> fst ` set d \<Longrightarrow> AList.update k v d = d @ [(k, v)]"
  by (induction d) auto

lemma foldl_update_distinct:
  "distinct (map fst tbs) \<Longrightarrow> fst ` set tbs \<inter> fst ` set df = {} \<Longrightarrow>
   foldl (\<lambda>d tb. AList.update (fst tb) (snd tb) d) df tbs = df @ tbs"
proof (induction tbs arbitrary: df)
  case Nil
  then show ?case by simp
next
  case (Cons tb tbs)
  from Cons.prems have fresh: "fst tb \<notin> fst ` set df" by auto
  have "foldl (\<lambda>d tb. AList.update (fst tb) (snd tb) d) (df @ [tb]) tbs = (df @ [tb]) @ tbs"
    using Cons.prems by (intro Cons.IH) auto
  then show ?case using fresh by (simp add: update_fresh)
qed


lemma get_bars_run:
  "get_bars env stock tId interval count extendTrading timeStamp s =
     (case resolve_tId env stock tId (snd (build_req_headers env False False True s)) of
        (Inl e, s2) \<Rightarrow> (Inl e, s2)
      | (Inr tid, s2) \<Rightarrow>
          (let rq = \<lparr>meth = GET, url = endpoints_bars env tid,
                      params = Some [(''type'', interval), (''count'', count),
                                     (''extendTrading'', extendTrading),
                                     (''timestamp'', timeStamp)],
                      json = None, hdrs = Some (headers s2), req_timeout = timeout s2\<rparr>;
               s3 = s2\<lparr>sent := sent s2 @ [rq]\<rparr>
           in case http env (length (sent s2)) rq of
                Inl e \<Rightarrow> (Inl e, s3)
              | Inr response \<Rightarrow> (bindE (response_json response) (bars_frame env), s3)))"
  apply (simp only: get_bars_def bnd_build)
  apply (subst bnd_def)
  apply (cases "resolve_tId env stock tId (snd (build_req_headers env False False True s))")
  apply (simp add: bnd_get bnd_lift lift_apply Let_def bindE_def split: sum.split)
  done

lemma get_bars_Inr:
  assumes "fst (get_bars env stock tId interval count extendTrading timeStamp s) = Inr frame"
  shows "\<exists>rq response result.
           sent (snd (get_bars env stock tId interval count extendTrading timeStamp s)) \<noteq> []
         \<and> rq = last (sent (snd (get_bars env stock tId interval count extendTrading timeStamp s)))
         \<and> meth rq = GET
         \<and> params rq = Some [(''type'', interval), (''count'', count),
                              (''extendTrading'', extendTrading), (''timestamp'', timeStamp)]
         \<and> (tId \<noteq> PNone \<longrightarrow> url rq = endpoints_bars env tId)
         \<and> http env
              (length (sent (snd (get_bars env stock tId interval count extendTrading
                                    timeStamp s))) - 1) rq = Inr response
         \<and> body response = Some result
         \<and> bars_frame env result = Inr frame"
proof -
  obtain r0 s2 where res:
    "resolve_tId env stock tId (snd (build_req_headers env False False True s)) = (r0, s2)"
    by (cases "resolve_tId env stock tId (snd (build_req_headers env False False True s))")
  have given: "tId \<noteq> PNone \<Longrightarrow> r0 = Inr tId"
    using res by (simp add: resolve_tId_given)
  show ?thesis
    using assms given
    by (cases r0)
       (auto simp: get_bars_run res Let_def bindE_def response_json_def
          split: sum.splits option.splits)
qed

text \<open>
  C6. When \<^verbatim>\<open>get_bars\<close> returns a frame, the frame comes from the rows of the response
  to its request as follows. Each row is a string; split on commas, with every field
  \<^verbatim>\<open>null\<close> replaced by \<^verbatim>\<open>0\<close>, it has at least eight columns, and its record takes the
  timestamp from column 0, open from column 1, close from column 2, high from column 3, low
  from column 4, volume from column 6 and vwap from column 7. The records are stored under
  their timestamps in the order of the rows (a later row with the timestamp of an earlier
  one replaces its record), and the frame returned is that sequence reversed: with distinct
  timestamps, exactly the records of the rows in reverse order.
\<close>

theorem get_bars_column_mapping:
  assumes "fst (get_bars env stock tId interval count extendTrading timeStamp s) = Inr frame"
  shows "\<exists>rq response result rows tbs.
           rq = last (sent (snd (get_bars env stock tId interval count extendTrading timeStamp s)))
         \<and> meth rq = GET
         \<and> http env
              (length (sent (snd (get_bars env stock tId interval count extendTrading
                                    timeStamp s))) - 1) rq = Inr response
         \<and> body response = Some result
         \<and> bindE (bindE (getindex result 0) (\<lambda>r0. getitem r0 ''data'')) py_iter = Inr rows
         \<and> length tbs = length rows
         \<and> (\<forall>i < length rows. \<exists>r. rows ! i = PStr r \<and>
               (let cols = map null_to_zero (split_on CHR '','' r) in
                8 \<le> length cols
                \<and> py_int env (PStr (cols ! 0)) = Inr (fst (tbs ! i))
                \<and> py_float env (PStr (cols ! 1)) = Inr (bar_open (snd (tbs ! i)))
                \<and> py_float env (PStr (cols ! 2)) = Inr (bar_close (snd (tbs ! i)))
                \<and> py_float env (PStr (cols ! 3)) = Inr (bar_high (snd (tbs ! i)))
                \<and> py_float env (PStr (cols ! 4)) = Inr (bar_low (snd (tbs ! i)))
                \<and> py_float env (PStr (cols ! 6)) = Inr (bar_volume (snd (tbs ! i)))
                \<and> py_float env (PStr (cols ! 7)) = Inr (bar_vwap (snd (tbs ! i)))))
         \<and> frame = rev (foldl (\<lambda>d tb. AList.update (fst tb) (snd tb) d) [] tbs)
         \<and> (distinct (map fst tbs) \<longrightarrow> frame = rev tbs)"
proof -
  from get_bars_Inr [OF assms] obtain rq response result where
    rq: "rq = last (sent (snd (get_bars env stock tId interval count extendTrading timeStamp s)))"
      "meth rq = GET"
      "http env (length (sent (snd (get_bars env stock tId interval count extendTrading
                                    timeStamp s))) - 1) rq = Inr response"
      "body response = Some result"
    and fr: "bars_frame env result = Inr frame"
    by blast
  from fr obtain rows df where
    rows: "bindE (bindE (getindex result 0) (\<lambda>r0. getitem r0 ''data'')) py_iter = Inr rows"
    and df: "bars_loop env rows [] = Inr df" and frame: "frame = rev df"
    by (auto simp: bars_frame_def bindE_def [of _ "\<lambda>tz. _ tz"] bindE_def [of "bars_loop _ _ _"]
          bindE_def [of _ "\<lambda>rows. _ rows"] split: sum.splits if_splits)
  from bars_loop_Inr [OF df] obtain tbs where tbs: "length tbs = length rows"
    "\<forall>i < length rows. bar_of_row env (rows ! i) = Inr (tbs ! i)"
    "df = foldl (\<lambda>d tb. AList.update (fst tb) (snd tb) d) [] tbs"
    by blast
  have cols: "\<forall>i < length rows. \<exists>r. rows ! i = PStr r \<and>
               (let cols = map null_to_zero (split_on CHR '','' r) in
                8 \<le> length cols
                \<and> py_int env (PStr (cols ! 0)) = Inr (fst (tbs ! i))
                \<and> py_float env (PStr (cols ! 1)) = Inr (bar_open (snd (tbs ! i)))
                \<and> py_float env (PStr (cols ! 2)) = Inr (bar_close (snd (tbs ! i)))
                \<and> py_float env (PStr (cols ! 3)) = Inr (bar_high (snd (tbs ! i)))
                \<and> py_float env (PStr (cols ! 4)) = Inr (bar_low (snd (tbs ! i)))
                \<and> py_float env (PStr (cols ! 6)) = Inr (bar_volume (snd (tbs ! i)))
                \<and> py_float env (PStr (cols ! 7)) = Inr (bar_vwap (snd (tbs ! i))))"
    using tbs(2) bar_of_row_Inr by blast
  have dist: "distinct (map fst tbs) \<longrightarrow> frame = rev tbs"
    using frame tbs(3) foldl_update_distinct [of tbs "[]"] by simp
  from rq rows tbs(1) cols frame tbs(3) dist show ?thesis
    by blast
qed


theorem get_bars_column_mapping_witness:
  "fst (get_bars (example_env (answering bars_response)) PNone (PInt 913) (PStr ''m1'') (PInt 2)
          (PInt 0) PNone (init (PStr ''d'')))
     = Inr [(1700000000, \<lparr>bar_open = 7, bar_high = 0, bar_low = 6, bar_close = 8,
                           bar_volume = 0, bar_vwap = 0\<rparr>),
            (1700000060, \<lparr>bar_open = 10, bar_high = 12, bar_low = 9, bar_close = 11,
                           bar_volume = 500, bar_vwap = 10\<rparr>)]
   \<and> (\<exists>tbs. length tbs = 2
          \<and> [(1700000000 :: int, \<lparr>bar_open = 7, bar_high = 0, bar_low = 6, bar_close = 8,
                              bar_volume = 0, bar_vwap = (0::int)\<rparr>),
               (1700000060, \<lparr>bar_open = 10, bar_high = 12, bar_low = 9, bar_close = 11,
                              bar_volume = 500, bar_vwap = 10\<rparr>)]
              = rev (foldl (\<lambda>d tb. AList.update (fst tb) (snd tb) d) [] tbs))"
proof -
  have r1: "bar_of_row (example_env (answering bars_response))
              (PStr ''1700000060,10,11,12,9,5,500,10'')
            = Inr (1700000060, \<lparr>bar_open = 10, bar_high = 12, bar_low = 9, bar_close = 11,
                                 bar_volume = 500, bar_vwap = 10\<rparr>)"
    by (simp add: bar_of_row_def bindE_def list_index_def null_to_zero_def example_env_sel
          digit_of_def)
  have r2: "bar_of_row (example_env (answering bars_response))
              (PStr ''1700000000,7,8,null,6,5,null,null'')
            = Inr (1700000000, \<lparr>bar_open = 7, bar_high = 0, bar_low = 6, bar_close = 8,
                                 bar_volume = 0, bar_vwap = 0\<rparr>)"
    by (simp add: bar_of_row_def bindE_def list_index_def null_to_zero_def example_env_sel
          digit_of_def)
  have fr: "bars_frame (example_env (answering bars_response)) bars_response
            = Inr [(1700000000, \<lparr>bar_open = 7, bar_high = 0, bar_low = 6, bar_close = 8,
                                   bar_volume = 0, bar_vwap = 0\<rparr>),
                   (1700000060, \<lparr>bar_open = 10, bar_high = 12, bar_low = 9, bar_close = 11,
                                   bar_volume = 500, bar_vwap = 10\<rparr>)]"
    by (simp add: bars_frame_def bars_response_def [of] bindE_def list_index_def
          example_env_sel(9) r1 [unfolded bars_response_def] r2 [unfolded bars_response_def])
  have e: "fst (get_bars (example_env (answering bars_response)) PNone (PInt 913) (PStr ''m1'')
                  (PInt 2) (PInt 0) PNone (init (PStr ''d'')))
           = Inr [(1700000000, \<lparr>bar_open = 7, bar_high = 0, bar_low = 6, bar_close = 8,
                                   bar_volume = 0, bar_vwap = 0\<rparr>),
                  (1700000060, \<lparr>bar_open = 10, bar_high = 12, bar_low = 9, bar_close = 11,
                                   bar_volume = 500, bar_vwap = 10\<rparr>)]"
    by (simp add: get_bars_run resolve_tId_given Let_def example_env_sel(6) answering_def
          response_json_def bindE_def fr [unfolded answering_def])
  from get_bars_column_mapping [OF e] obtain rows :: "int pyval list"
      and tbs :: "(int \<times> int bar) list" where
    "bindE (bindE (getindex bars_response 0) (\<lambda>r0. getitem r0 ''data'')) py_iter = Inr rows"
    "length tbs = length rows"
    "[(1700000000, \<lparr>bar_open = 7, bar_high = 0, bar_low = 6, bar_close = 8,
                              bar_volume = 0, bar_vwap = (0::int)\<rparr>),
               (1700000060, \<lparr>bar_open = 10, bar_high = 12, bar_low = 9, bar_close = 11,
                              bar_volume = 500, bar_vwap = 10\<rparr>)]
       = rev (foldl (\<lambda>d tb. AList.update (fst tb) (snd tb) d) [] tbs)"
    by (auto simp: example_env_sel(6) answering_def)
  moreover from this(1) have "length rows = 2"
    by (auto simp: bars_response_def bindE_def list_index_def)
  ultimately show ?thesis using e by auto
qed

subsection \<open>The overrides of the paper-trading client\<close>

lemma account_id_build: "account_id (snd (build_req_headers env a b c s)) = account_id s"
  by (simp add: build_req_headers_def Let_def)

lemma timeout_build: "timeout (snd (build_req_headers env a b c s)) = timeout s"
  by (simp add: build_req_headers_def Let_def)

lemma get_account_fetch:
  "get_account env s = fetch_json env False (endpoints_account env (account_id s)) s"
  by (simp add: get_account_def fetch_json_def bnd_build bnd_get account_id_build)

lemma paper_get_account_fetch:
  "paper_get_account env s = fetch_json env False (endpoints_paper_account env (account_id s)) s"
  by (simp add: paper_get_account_def fetch_json_def bnd_build bnd_get account_id_build)

lemma get_history_orders_fetch:
  "get_history_orders env status count s =
     fetch_json env True (endpoints_orders env (account_id s) count @ py_str env status) s"
  by (simp add: get_history_orders_def fetch_json_def bnd_build bnd_get account_id_build)

lemma paper_get_history_orders_fetch:
  "paper_get_history_orders env status count s =
     fetch_json env True (endpoints_paper_orders env (account_id s) count @ py_str env status) s"
  by (simp add: paper_get_history_orders_def fetch_json_def bnd_build bnd_get account_id_build)

lemma bnd_cong_action: "m s = m' s \<Longrightarrow> bnd m f s = bnd m' f s"
  by (simp add: bnd_def)

lemma get_current_orders_fetch:
  "get_current_orders env s =
     bnd (fetch_json env False (endpoints_account env (account_id s)))
       (\<lambda>data. lift (getitem data ''openOrders'')) s"
  unfolding get_current_orders_def by (rule bnd_cong_action) (rule get_account_fetch)

lemma paper_get_current_orders_fetch:
  "paper_get_current_orders env s =
     bnd (fetch_json env False (endpoints_paper_account env (account_id s)))
       (\<lambda>data. lift (getitem data ''openOrders'')) s"
  unfolding paper_get_current_orders_def by (rule bnd_cong_action) (rule paper_get_account_fetch)

lemma get_positions_fetch:
  "get_positions env s =
     bnd (fetch_json env False (endpoints_account env (account_id s)))
       (\<lambda>data. lift (getitem data ''positions'')) s"
  unfolding get_positions_def by (rule bnd_cong_action) (rule get_account_fetch)

lemma paper_get_positions_fetch:
  "paper_get_positions env s =
     bnd (fetch_json env False (endpoints_paper_account env (account_id s)))
       (\<lambda>account.
          bnd (lift (getitem account ''positions'')) (\<lambda>positions_data.
          bnd (lift (py_iter positions_data)) (\<lambda>items.
          lift (positions_loop env items [])))) s"
  unfolding paper_get_positions_def by (rule bnd_cong_action) (rule paper_get_account_fetch)

lemma sent_cancel_order:
  "sent (snd (cancel_order env order_id s)) =
     sent s @ [\<lparr>meth = POST,
                 url = endpoints_cancel_order env (account_id s) @ py_str env order_id @ ''/''
                         @ uuid4 env 0,
                 params = None, json = Some (PDict []),
                 hdrs = Some (headers (snd (build_req_headers env True True True s))),
                 req_timeout = timeout s\<rparr>]"
  by (simp add: cancel_order_def bnd_build bnd_post bnd_lift Let_def lift_apply
        sent_build account_id_build timeout_build split: sum.split)

lemma sent_paper_cancel_order:
  "sent (snd (paper_cancel_order env order_id s)) =
     sent s @ [\<lparr>meth = POST,
                 url = endpoints_paper_cancel_order env (account_id s) order_id,
                 params = None, json = None,
                 hdrs = Some (headers (snd (build_req_headers env False False True s))),
                 req_timeout = timeout s\<rparr>]"
  by (simp add: paper_cancel_order_def bnd_build bnd_post Let_def ret_apply
        sent_build account_id_build timeout_build split: sum.split)


text \<open>
  C8 (as amended). Three overrides mirror the base method and differ in the endpoint only:
  \<^verbatim>\<open>get_account\<close>, \<^verbatim>\<open>get_current_orders\<close> and \<^verbatim>\<open>get_history_orders\<close> (given the same
  arguments) build the same headers, send one GET and return the same part of the response.
  The others do not: \<^verbatim>\<open>get_positions\<close> turns the list of positions into a dictionary
  keyed by symbol, where the base method returns the list itself; \<^verbatim>\<open>cancel_order\<close> posts
  without a body and with headers built without the trade token and the time, where the
  base method posts an empty JSON object with both.
\<close>

theorem paper_overrides:
  "paper_get_account env s = fetch_json env False (endpoints_paper_account env (account_id s)) s
   \<and> get_account env s = fetch_json env False (endpoints_account env (account_id s)) s
   \<and> paper_get_current_orders env s =
        bnd (fetch_json env False (endpoints_paper_account env (account_id s)))
          (\<lambda>data. lift (getitem data ''openOrders'')) s
   \<and> get_current_orders env s =
        bnd (fetch_json env False (endpoints_account env (account_id s)))
          (\<lambda>data. lift (getitem data ''openOrders'')) s
   \<and> paper_get_history_orders env status count s =
        fetch_json env True
          (endpoints_paper_orders env (account_id s) count @ py_str env status) s
   \<and> get_history_orders env status count s =
        fetch_json env True (endpoints_orders env (account_id s) count @ py_str env status) s
   \<and> paper_get_positions env s =
        bnd (fetch_json env False (endpoints_paper_account env (account_id s)))
          (\<lambda>account.
             bnd (lift (getitem account ''positions'')) (\<lambda>positions_data.
             bnd (lift (py_iter positions_data)) (\<lambda>items.
             lift (positions_loop env items [])))) s
   \<and> get_positions env s =
        bnd (fetch_json env False (endpoints_account env (account_id s)))
          (\<lambda>data. lift (getitem data ''positions'')) s
   \<and> sent (snd (paper_cancel_order env order_id s)) =
        sent s @ [\<lparr>meth = POST,
                    url = endpoints_paper_cancel_order env (account_id s) order_id,
                    params = None, json = None,
                    hdrs = Some (headers (snd (build_req_headers env False False True s))),
                    req_timeout = timeout s\<rparr>]
   \<and> sent (snd (cancel_order env order_id s)) =
        sent s @ [\<lparr>meth = POST,
                    url = endpoints_cancel_order env (account_id s) @ py_str env order_id
                            @ ''/'' @ uuid4 env 0,
                    params = None, json = Some (PDict []),
                    hdrs = Some (headers (snd (build_req_headers env True True True s))),
                    req_timeout = timeout s\<rparr>]"
  by (intro conjI paper_get_account_fetch get_account_fetch paper_get_current_orders_fetch
        get_current_orders_fetch paper_get_history_orders_fetch get_history_orders_fetch
        paper_get_positions_fetch get_positions_fetch sent_paper_cancel_order sent_cancel_order)

lemma fetch_json_answering:
  "fetch_json (example_env (answering v)) tt u s =
     (Inr v, (snd (build_req_headers (example_env (answering v)) tt tt True s))
        \<lparr>sent := sent s @ [\<lparr>meth = GET, url = u, params = None, json = None,
             hdrs = Some (headers (snd (build_req_headers (example_env (answering v)) tt tt True s))),
             req_timeout = timeout s\<rparr>]\<rparr>)"
  by (simp add: fetch_json_def bnd_build bnd_get Let_def lift_apply response_json_def
        example_env_sel(6) answering_def sent_build timeout_build)

theorem paper_overrides_counterexample:
  "fst (get_positions (example_env (answering account_response)) (init (PStr ''d'')))
     = Inr (PList [PDict [(''ticker'', PDict [(''symbol'', PStr ''AAPL'')]),
                          (''position'', PStr ''3'')]])
   \<and> fst (paper_get_positions (example_env (answering account_response)) (init (PStr ''d'')))
     = Inr [(PStr ''AAPL'', PDict [(''ticker'', PDict [(''symbol'', PStr ''AAPL'')]),
                                   (''position'', PStr ''3'')])]
   \<and> url (last (sent (snd (get_history_orders_default (example_env (answering account_response))
                             (init (PStr ''d''))))))
     = ''https://ustrade.webullbroker.com/api/trade/v2/option/list?secAccountId=&startTime=1970-0-1&dateType=ORDER&pageSize=20&status=All''
   \<and> url (last (sent (snd (paper_get_history_orders_default
                             (example_env (answering account_response)) (init (PStr ''d''))))))
     = ''https://act.webullbroker.com/webull-paper-center/api/paper/1/acc//order?&startTime=1970-0-1&dateType=ORDER&pageSize=20&status=Cancelled''"
proof (intro conjI)
  show "fst (get_positions (example_env (answering account_response)) (init (PStr ''d'')))
     = Inr (PList [PDict [(''ticker'', PDict [(''symbol'', PStr ''AAPL'')]),
                          (''position'', PStr ''3'')]])"
    by (simp add: get_positions_fetch bnd_def fetch_json_answering lift_apply
          account_response_def)
next
  show "fst (paper_get_positions (example_env (answering account_response)) (init (PStr ''d'')))
     = Inr [(PStr ''AAPL'', PDict [(''ticker'', PDict [(''symbol'', PStr ''AAPL'')]),
                                   (''position'', PStr ''3'')])]"
    by (simp add: paper_get_positions_fetch bnd_def fetch_json_answering lift_apply bindE_def
          account_response_def)
next
  show "url (last (sent (snd (get_history_orders_default (example_env (answering account_response))
                             (init (PStr ''d''))))))
     = ''https://ustrade.webullbroker.com/api/trade/v2/option/list?secAccountId=&startTime=1970-0-1&dateType=ORDER&pageSize=20&status=All''"
    by (simp add: get_history_orders_default_def get_history_orders_fetch fetch_json_answering
          endpoints_orders_def base_ustradebroker_url_def example_env_sel(1) init_def
          show_int_def show_nat.simps)
next
  show "url (last (sent (snd (paper_get_history_orders_default
                             (example_env (answering account_response)) (init (PStr ''d''))))))
     = ''https://act.webullbroker.com/webull-paper-center/api/paper/1/acc//order?&startTime=1970-0-1&dateType=ORDER&pageSize=20&status=Cancelled''"
    by (simp add: paper_get_history_orders_default_def paper_get_history_orders_fetch
          fetch_json_answering endpoints_paper_orders_def base_paper_url_def example_env_sel(1)
          init_def show_int_def show_nat.simps)
qed

subsection \<open>The trade token in order requests\<close>

lemma posts_carry_refl: "posts_carry s s tok"
  by (simp add: posts_carry_def)

lemma posts_carry_trans:
  "posts_carry s s1 tok \<Longrightarrow> posts_carry s1 s2 tok \<Longrightarrow> posts_carry s s2 tok"
  by (fastforce simp: posts_carry_def)

lemma tt_bnd:
  assumes "token_triple P m Q tok" and "\<And>x. token_triple Q (f x) R tok"
  shows "token_triple P (bnd m f) R tok"
  unfolding token_triple_def
proof (intro allI impI)
  fix s assume P: "P s"
  obtain r s1 where ms: "m s = (r, s1)" by (cases "m s")
  from assms(1) P ms have c1: "posts_carry s s1 tok" and q: "\<And>x. r = Inr x \<Longrightarrow> Q s1"
    by (auto simp: token_triple_def)
  show "(\<forall>x. fst (bnd m f s) = Inr x \<longrightarrow> R (snd (bnd m f s))) \<and> posts_carry s (snd (bnd m f s)) tok"
  proof (cases r)
    case (Inl e)
    then show ?thesis using ms c1 by (simp add: bnd_def)
  next
    case (Inr x)
    from assms(2) [of x] q [OF Inr]
    have "(\<forall>y. fst (f x s1) = Inr y \<longrightarrow> R (snd (f x s1))) \<and> posts_carry s1 (snd (f x s1)) tok"
      by (simp add: token_triple_def)
    then show ?thesis using ms Inr c1 by (auto simp: bnd_def intro: posts_carry_trans)
  qed
qed

lemma tt_lift: "token_triple P (lift r) P tok"
  by (simp add: token_triple_def lift_def posts_carry_refl)

lemma tt_ret: "token_triple P (ret x) P tok"
  by (simp add: token_triple_def ret_def posts_carry_refl)

lemma tt_throw: "token_triple P (throw e) Q tok"
  by (simp add: token_triple_def throw_def posts_carry_refl)

lemma tt_if:
  "token_triple P m1 Q tok \<Longrightarrow> token_triple P m2 Q tok \<Longrightarrow>
   token_triple P (if c then m1 else m2) Q tok"
  by simp

lemma tt_build_first:
  "token_triple (\<lambda>s. trade_token s = tt) (build_req_headers env True a b)
     (token_inv (Some tt) tt) (Some tt)"
  by (simp add: token_triple_def token_inv_def build_req_headers_t_token
        build_req_headers_trade_token posts_carry_def sent_build)

lemma tt_build_keep:
  "tok = Some tt \<or> \<not> flag \<Longrightarrow>
   token_triple (token_inv tok tt) (build_req_headers env flag a b) (token_inv tok tt) tok"
  by (auto simp: token_triple_def token_inv_def build_req_headers_t_token
        build_req_headers_trade_token posts_carry_def sent_build)

lemma tt_build_pred:
  "token_triple (\<lambda>s. trade_token s = tt) (build_req_headers env False a b)
     (\<lambda>s. trade_token s = tt) tok"
  by (simp add: token_triple_def build_req_headers_trade_token posts_carry_def sent_build)

lemma tt_get_inv:
  "token_triple (token_inv tok tt) (\<lambda>s. get_with_headers env (u s) ps s) (token_inv tok tt) tok"
  by (simp add: token_triple_def token_inv_def get_with_headers_def send_def posts_carry_def
        good_post_def)

lemma tt_get_pred:
  "token_triple (\<lambda>s. trade_token s = tt) (\<lambda>s. get_with_headers env (u s) ps s)
     (\<lambda>s. trade_token s = tt) tok"
  by (simp add: token_triple_def get_with_headers_def send_def posts_carry_def good_post_def)

lemma tt_post_inv:
  "token_triple (token_inv tok tt) (\<lambda>s. post_with_headers env (u s) (j s) s)
     (token_inv tok tt) tok"
  by (simp add: token_triple_def token_inv_def post_with_headers_def send_def posts_carry_def
        good_post_def)


lemmas tt_rules = tt_bnd tt_lift tt_ret tt_throw tt_if tt_build_first tt_build_keep
  tt_build_pred tt_get_inv tt_get_pred tt_post_inv

lemma tt_get_ticker_inv:
  "token_triple (token_inv tok tt) (get_ticker env stock) (token_inv tok tt) tok"
  unfolding get_ticker_def
  by (cases stock; simp only: pyval.case) ((rule tt_rules | simp)+)

lemma tt_get_ticker_pred:
  "token_triple (\<lambda>s. trade_token s = tt) (get_ticker env stock) (\<lambda>s. trade_token s = tt) tok"
  unfolding get_ticker_def
  by (cases stock; simp only: pyval.case) ((rule tt_rules | simp)+)

lemma tt_resolve_pred:
  "token_triple (\<lambda>s. trade_token s = tt) (resolve_tId env stock tId) (\<lambda>s. trade_token s = tt) tok"
  unfolding resolve_tId_def
  by (rule tt_rules tt_get_ticker_pred)+

lemma tt_otoco_leg:
  "token_triple (token_inv tok tt)
     (otoco_leg env order_type time_in_force quant order_id act stock price_key price combo serial)
     (token_inv tok tt) tok"
  unfolding otoco_leg_def
  by (rule tt_rules tt_get_ticker_inv)+

lemma tt_place_order:
  "token_triple (\<lambda>s. trade_token s = tt)
     (place_order env stock tId price action orderType enforce quant outsideRegularTradingHour
        stpPrice trial_value trial_type)
     (token_inv (Some tt) tt) (Some tt)"
  unfolding place_order_def
  by (rule tt_rules tt_resolve_pred | simp)+

lemma tt_place_order_crypto:
  "token_triple (\<lambda>s. trade_token s = tt)
     (place_order_crypto env stock tId price action orderType enforce entrust_type quant
        outsideRegularTradingHour)
     (token_inv (Some tt) tt) (Some tt)"
  unfolding place_order_crypto_def Let_def
  by (rule tt_rules tt_resolve_pred | simp)+

lemma tt_cancel_order:
  "token_triple (\<lambda>s. trade_token s = tt) (cancel_order env order_id)
     (token_inv (Some tt) tt) (Some tt)"
  unfolding cancel_order_def
  by (rule tt_rules | simp)+

lemma tt_cancel_order_otoco:
  "token_triple (\<lambda>s. trade_token s = tt) (cancel_order_otoco env combo_id)
     (token_inv (Some tt) tt) (Some tt)"
  unfolding cancel_order_otoco_def
  by (rule tt_rules | simp)+


lemma tt_modify_order:
  "token_triple (\<lambda>s. trade_token s = tt)
     (modify_order env order order_id stock tId price action orderType enforce quant
        outsideRegularTradingHour)
     (token_inv (Some tt) tt) (Some tt)"
  unfolding modify_order_def Let_def
  by (rule tt_rules tt_get_ticker_inv | simp)+

lemma tt_place_order_option:
  "token_triple (\<lambda>s. trade_token s = tt)
     (place_order_option env optionId lmtPrice stpPrice action orderType enforce quant)
     (token_inv (Some tt) tt) (Some tt)"
  unfolding place_order_option_def Let_def
  by (rule tt_rules | simp)+

lemma tt_modify_order_option:
  "token_triple (\<lambda>s. trade_token s = tt)
     (modify_order_option env order lmtPrice stpPrice enforce quant)
     (token_inv (Some tt) tt) (Some tt)"
  unfolding modify_order_option_def Let_def
  by (rule tt_rules | simp)+

lemma tt_place_order_otoco:
  "token_triple (token_inv tok tt)
     (place_order_otoco env stock price stop_loss_price limit_profit_price time_in_force quant)
     (token_inv tok tt) tok"
  unfolding place_order_otoco_def
  by (rule tt_rules tt_otoco_leg | simp)+

lemma tt_modify_order_otoco:
  "token_triple (token_inv tok tt)
     (modify_order_otoco env order_id1 order_id2 order_id3 stock price stop_loss_price
        limit_profit_price time_in_force quant)
     (token_inv tok tt) tok"
  unfolding modify_order_otoco_def
  by (rule tt_rules tt_otoco_leg | simp)+

lemma triple_posts_pred:
  "token_triple (\<lambda>s. trade_token s = trade_token s0) m Q tok \<Longrightarrow>
   posts_carry s0 (snd (m s0)) tok"
  by (simp add: token_triple_def)

lemma triple_posts_inv:
  "token_triple (token_inv (map_of (headers s0) ''t_token'') (trade_token s0)) m Q
     (map_of (headers s0) ''t_token'') \<Longrightarrow>
   posts_carry s0 (snd (m s0)) (map_of (headers s0) ''t_token'')"
  by (simp add: token_triple_def token_inv_def)


text \<open>
  C1 (as amended). \<^verbatim>\<open>place_order\<close>, \<^verbatim>\<open>modify_order\<close>, \<^verbatim>\<open>cancel_order\<close>,
  \<^verbatim>\<open>cancel_order_otoco\<close>, \<^verbatim>\<open>place_order_crypto\<close>, \<^verbatim>\<open>place_order_option\<close> and
  \<^verbatim>\<open>modify_order_option\<close> build their headers with \<^verbatim>\<open>include_trade_token=True\<close>: every
  POST that such a call sends has the trade token of the session as its \<^verbatim>\<open>t_token\<close> header.
  \<^verbatim>\<open>place_order_otoco\<close> and \<^verbatim>\<open>modify_order_otoco\<close> build theirs with
  \<^verbatim>\<open>include_trade_token=False\<close>: the POSTs of such a call have the \<^verbatim>\<open>t_token\<close> entry that
  the shared header dictionary had before the call, or none if it had none.
\<close>

theorem order_requests_trade_token:
  "posts_carry s
     (snd (place_order env stock tId price action orderType enforce quant
             outsideRegularTradingHour stpPrice trial_value trial_type s))
     (Some (trade_token s))
   \<and> posts_carry s
       (snd (modify_order env order order_id stock tId price action orderType enforce quant
               outsideRegularTradingHour s))
       (Some (trade_token s))
   \<and> posts_carry s (snd (cancel_order env order_id s)) (Some (trade_token s))
   \<and> posts_carry s (snd (cancel_order_otoco env combo_id s)) (Some (trade_token s))
   \<and> posts_carry s
       (snd (place_order_crypto env stock tId price action orderType enforce entrust_type quant
               outsideRegularTradingHour s))
       (Some (trade_token s))
   \<and> posts_carry s
       (snd (place_order_option env optionId lmtPrice stpPrice action orderType enforce quant s))
       (Some (trade_token s))
   \<and> posts_carry s
       (snd (modify_order_option env order lmtPrice stpPrice enforce quant s))
       (Some (trade_token s))
   \<and> posts_carry s
       (snd (place_order_otoco env stock price stop_loss_price limit_profit_price
               time_in_force quant s))
       (map_of (headers s) ''t_token'')
   \<and> posts_carry s
       (snd (modify_order_otoco env order_id1 order_id2 order_id3 stock price stop_loss_price
               limit_profit_price time_in_force quant s))
       (map_of (headers s) ''t_token'')"
  by (intro conjI triple_posts_pred [OF tt_place_order] triple_posts_pred [OF tt_modify_order]
        triple_posts_pred [OF tt_cancel_order] triple_posts_pred [OF tt_cancel_order_otoco]
        triple_posts_pred [OF tt_place_order_crypto] triple_posts_pred [OF tt_place_order_option]
        triple_posts_pred [OF tt_modify_order_option] triple_posts_inv [OF tt_place_order_otoco]
        triple_posts_inv [OF tt_modify_order_otoco])

theorem order_requests_trade_token_witness:
  "\<exists>rq. sent (snd (cancel_order (example_env (answering (PDict [(''success'', PBool True)])))
                    (PStr ''o1'') ((init (PStr ''d''))\<lparr>trade_token := PStr ''tt''\<rparr>))) = [rq]
     \<and> meth rq = POST \<and> t_token_of rq = Some (PStr ''tt'')"
proof -
  let ?E = "example_env (answering (PDict [(''success'', PBool True)]))"
  let ?s = "(init (PStr ''d''))\<lparr>trade_token := PStr ''tt''\<rparr> :: int webull"
  let ?rq = "\<lparr>meth = POST,
               url = endpoints_cancel_order ?E (account_id ?s) @ py_str ?E (PStr ''o1'')
                       @ ''/'' @ uuid4 ?E 0,
               params = None, json = Some (PDict []),
               hdrs = Some (headers (snd (build_req_headers ?E True True True ?s))),
               req_timeout = timeout ?s\<rparr>"
  note c = order_requests_trade_token [where env = ?E and s = ?s and order_id = "PStr ''o1''",
      THEN conjunct2, THEN conjunct2, THEN conjunct1]
  have sent: "sent (snd (cancel_order ?E (PStr ''o1'') ?s)) = sent ?s @ [?rq]"
    by (rule sent_cancel_order)
  have "good_post (Some (trade_token ?s)) ?rq"
    using c by (simp add: posts_carry_def sent)
  then have "t_token_of ?rq = Some (PStr ''tt'')"
    by (simp add: good_post_def t_token_of_def)
  moreover have "sent ?s = []" by (simp add: init_def)
  ultimately show ?thesis
    by (simp only: sent) simp
qed

lemma bnd_assoc: "bnd (bnd m f) g = bnd m (\<lambda>x. bnd (f x) g)"
  by (auto simp: bnd_def fun_eq_iff split: prod.splits sum.splits)

lemma http_answering:
  "http (example_env (answering v)) n rq = Inr \<lparr>status_code = 200, body = Some v\<rparr>"
  by (simp add: example_env_sel answering_def)

lemma get_ticker_example:
  "fst (get_ticker (example_env (answering ticker_response)) (PStr ''A'') s) = Inr (PInt 5)"
  by (simp add: get_ticker_def bnd_build bnd_get bnd_lift ret_apply lift_apply throw_apply Let_def
        bindE_def example_env_sel answering_def response_json_def
        ticker_response_def key_equals_def list_index_def)

lemma bnd_get_ticker_example:
  "bnd (get_ticker (example_env (answering ticker_response)) (PStr ''A'')) f s =
     f (PInt 5) (snd (get_ticker (example_env (answering ticker_response)) (PStr ''A'') s))"
  using get_ticker_example [of s]
  by (cases "get_ticker (example_env (answering ticker_response)) (PStr ''A'') s")
     (simp add: bnd_def)

theorem otoco_without_trade_token_counterexample:
  "length (sent (snd (modify_order_otoco (example_env (answering ticker_response)) (PStr ''o1'')
                       (PStr ''o2'') (PStr ''o3'') (PStr ''A'') (PInt 10) (PInt 9) (PInt 12)
                       (PStr ''DAY'') (PInt 1) (init (PStr ''d''))))) = 4
   \<and> meth (last (sent (snd (modify_order_otoco (example_env (answering ticker_response))
                       (PStr ''o1'') (PStr ''o2'') (PStr ''o3'') (PStr ''A'') (PInt 10) (PInt 9)
                       (PInt 12) (PStr ''DAY'') (PInt 1) (init (PStr ''d'')))))) = POST
   \<and> hdrs (last (sent (snd (modify_order_otoco (example_env (answering ticker_response))
                       (PStr ''o1'') (PStr ''o2'') (PStr ''o3'') (PStr ''A'') (PInt 10) (PInt 9)
                       (PInt 12) (PStr ''DAY'') (PInt 1) (init (PStr ''d'')))))) \<noteq> None
   \<and> t_token_of (last (sent (snd (modify_order_otoco (example_env (answering ticker_response))
                       (PStr ''o1'') (PStr ''o2'') (PStr ''o3'') (PStr ''A'') (PInt 10) (PInt 9)
                       (PInt 12) (PStr ''DAY'') (PInt 1) (init (PStr ''d'')))))) = None"
  by (simp add: modify_order_otoco_def otoco_leg_def bnd_assoc bnd_build bnd_lift bnd_post
        bnd_get_ticker_example get_ticker_state ret_apply lift_apply bnd_ret Let_def
        example_env_sel(2,3) http_answering response_json_def
        lookup_requests_def t_token_of_def sent_build)
     (simp add: build_req_headers_def Let_def init_def update_conv')

end
